theory Spec2Isabelle
  imports Complex_Main "HOL-Library.AList" "HOL-Library.Multiset"
begin

section \<open>Python strings\<close>

text \<open>
  Python's \<open>str\<close> is modelled by \<open>string\<close>. The helpers below are the string methods
  the services call, restricted to ASCII text: \<open>lower\<close>, \<open>capitalize\<close>, \<open>in\<close> on
  strings, \<open>join\<close>, \<open>count('\n')\<close>, \<open>splitlines\<close>, slicing and number formatting.
\<close>

definition lower_char :: "char \<Rightarrow> char" where
  "lower_char c =
     (case map_of (zip ''ABCDEFGHIJKLMNOPQRSTUVWXYZ'' ''abcdefghijklmnopqrstuvwxyz'') c of
        Some l \<Rightarrow> l
      | None \<Rightarrow> c)"

definition upper_char :: "char \<Rightarrow> char" where
  "upper_char c =
     (case map_of (zip ''abcdefghijklmnopqrstuvwxyz'' ''ABCDEFGHIJKLMNOPQRSTUVWXYZ'') c of
        Some u \<Rightarrow> u
      | None \<Rightarrow> c)"

definition lower :: "string \<Rightarrow> string" where
  "lower s = map lower_char s"

text \<open>\<open>s.capitalize()\<close>: the first character upper-cased, the rest lower-cased.\<close>

fun capitalize :: "string \<Rightarrow> string" where
  "capitalize [] = []"
| "capitalize (c # cs) = upper_char c # map lower_char cs"

text \<open>\<open>starts_with p s\<close>: \<open>s.startswith(p)\<close>; \<open>contains p s\<close>: \<open>p in s\<close>.\<close>

fun starts_with :: "string \<Rightarrow> string \<Rightarrow> bool" where
  "starts_with [] s = True"
| "starts_with (p # ps) [] = False"
| "starts_with (p # ps) (c # cs) = (p = c \<and> starts_with ps cs)"

fun contains :: "string \<Rightarrow> string \<Rightarrow> bool" where
  "contains p [] = (p = [])"
| "contains p (c # cs) = (starts_with p (c # cs) \<or> contains p cs)"

text \<open>\<open>sep.join(parts)\<close>.\<close>

fun join :: "string \<Rightarrow> string list \<Rightarrow> string" where
  "join sep [] = []"
| "join sep [x] = x"
| "join sep (x # y # ys) = x @ sep @ join sep (y # ys)"

text \<open>\<open>s.count('\n')\<close>.\<close>

definition count_nl :: "string \<Rightarrow> nat" where
  "count_nl s = length (filter (\<lambda>c. c = CHR 0x0A) s)"

text \<open>
  \<open>s.splitlines()\<close>: the lines without their terminators, and no empty last line
  after a final terminator. The ASCII line boundaries are \<open>\n\<close>, \<open>\r\<close>, \<open>\r\n\<close>,
  \<open>\v\<close>, \<open>\f\<close> and the separators \<open>\x1c\<close>, \<open>\x1d\<close>, \<open>\x1e\<close>.
\<close>

definition is_line_boundary :: "char \<Rightarrow> bool" where
  "is_line_boundary c =
     (c = CHR 0x0A \<or> c = CHR 0x0B \<or> c = CHR 0x0C \<or> c = CHR 0x0D
      \<or> c = CHR 0x1C \<or> c = CHR 0x1D \<or> c = CHR 0x1E)"

fun splitlines_acc :: "string \<Rightarrow> string \<Rightarrow> string list" where
  "splitlines_acc cur [] = (if cur = [] then [] else [cur])"
| "splitlines_acc cur [c] = (if is_line_boundary c then [cur] else [cur @ [c]])"
| "splitlines_acc cur (c # d # cs) =
     (if c = CHR 0x0D \<and> d = CHR 0x0A then cur # splitlines_acc [] cs
      else if is_line_boundary c then cur # splitlines_acc [] (d # cs)
      else splitlines_acc (cur @ [c]) (d # cs))"

definition splitlines :: "string \<Rightarrow> string list" where
  "splitlines s = splitlines_acc [] s"

text \<open>
  The slice \<open>xs[a:b]\<close>: a negative index counts from the end, and both indices are
  clamped to the list.
\<close>

definition slice_index :: "nat \<Rightarrow> int \<Rightarrow> nat" where
  "slice_index n i = (if i < 0 then nat (max 0 (int n + i)) else min n (nat i))"

definition slice :: "'a list \<Rightarrow> int \<Rightarrow> int \<Rightarrow> 'a list" where
  "slice xs a b =
     (let lo = slice_index (length xs) a; hi = slice_index (length xs) b
      in take (hi - lo) (drop lo xs))"

text \<open>\<open>str(n)\<close> for a natural number, and the format \<open>{n:06d}\<close>.\<close>

definition digit_char :: "nat \<Rightarrow> char" where
  "digit_char d = ''0123456789'' ! d"

fun dec :: "nat \<Rightarrow> string" where
  "dec n = (if n < 10 then [digit_char n] else dec (n div 10) @ [digit_char (n mod 10)])"

declare dec.simps [simp del]

definition format_06d :: "nat \<Rightarrow> string" where
  "format_06d n = replicate (6 - length (dec n)) (CHR ''0'') @ dec n"

text \<open>\<open>s.endswith(suffix)\<close>.\<close>

definition ends_with :: "string \<Rightarrow> string \<Rightarrow> bool" where
  "ends_with suffix s = starts_with (rev suffix) (rev s)"

text \<open>
  \<open>range(0, n, step)\<close> for \<open>step > 0\<close>: the multiples of \<open>step\<close> below \<open>n\<close>.
\<close>

definition range_step :: "nat \<Rightarrow> nat \<Rightarrow> nat list" where
  "range_step n step = map (\<lambda>j. j * step) [0..<(n + step - 1) div step]"

section \<open>Exceptions\<close>

text \<open>
  The exceptions of \<open>app/core/exceptions.py\<close> that the services raise, the two httpx
  exception classes the retry decorator names, and \<open>PyException cls msg\<close> for any other
  exception (its class name and message). A function that can raise returns
  \<open>exn + 'a\<close>, \<open>Inl\<close> the exception.
\<close>

datatype exn =
    TimeoutException string
  | NetworkError string
  | PyException string string
  | SessionNotFoundException string
  | EmbeddingException string
  | LLMException string
  | VectorDBException string

text \<open>\<open>str(e)\<close>: the message handed to \<open>Exception.__init__\<close>.\<close>

fun str_exn :: "exn \<Rightarrow> string" where
  "str_exn (TimeoutException m) = m"
| "str_exn (NetworkError m) = m"
| "str_exn (PyException cls m) = m"
| "str_exn (SessionNotFoundException sid) = ''Session not found: '' @ sid"
| "str_exn (EmbeddingException m) = m"
| "str_exn (LLMException m) = m"
| "str_exn (VectorDBException m) = m"

section \<open>Code chunks (parser\_service.py)\<close>

record CodeChunk =
  chunk_id :: string
  type :: string
  name :: string
  code :: string
  file_path :: string
  start_line :: int
  end_line :: int
  language :: string
  docstring :: string
  chunk_imports :: "string list"

text \<open>\<open>CodeChunk.get_context_text\<close>.\<close>

definition get_context_text :: "CodeChunk \<Rightarrow> string" where
  "get_context_text c =
     join [CHR 0x0A]
       ([''File: '' @ file_path c,
         ''Language: '' @ language c,
         capitalize (type c) @ '': '' @ name c]
        @ (if docstring c \<noteq> [] then [''Documentation: '' @ docstring c] else [])
        @ [''Code:'' @ [CHR 0x0A] @ code c])"

section \<open>Parser service (parser\_service.py)\<close>

text \<open>
  \<open>ParserService._create_chunk\<close>: \<open>chunk_counter\<close> is the state of the service; it is
  passed in and returned incremented. The keyword arguments are the fields of the
  chunk; \<open>imports\<close> is never given and defaults to the empty list.
\<close>

definition create_chunk ::
  "nat \<Rightarrow> string \<Rightarrow> string \<Rightarrow> string \<Rightarrow> string \<Rightarrow> int \<Rightarrow> int \<Rightarrow> string \<Rightarrow> string
     \<Rightarrow> CodeChunk \<times> nat" where
  "create_chunk chunk_counter ty nm cd fp sl el lang doc =
     (\<lparr>chunk_id = ''chunk_'' @ format_06d (chunk_counter + 1), type = ty, name = nm,
       code = cd, file_path = fp, start_line = sl, end_line = el, language = lang,
       docstring = doc, chunk_imports = []\<rparr>,
      chunk_counter + 1)"

text \<open>
  What a parser reads of a file: the outcome of \<open>open(...).read()\<close>, the path itself,
  \<open>os.path.relpath(file_path, base_path)\<close>, \<open>Path(file_path).stem\<close> and
  \<open>Path(file_path).suffix.lower()\<close>.
\<close>

record source_file =
  read_result :: "exn + string"
  path :: string
  relative_path :: string
  stem :: string
  suffix :: string

subsection \<open>Python files\<close>

text \<open>
  The syntax tree of \<open>ast.parse\<close>, as far as the parser looks at it: the node classes
  it tests for, and for each node its child nodes in the order of
  \<open>ast.iter_child_nodes\<close>. A definition node carries \<open>name\<close>, \<open>lineno\<close>,
  \<open>end_lineno\<close> (which may be \<open>None\<close>) and the value of \<open>ast.get_docstring(node)\<close>.
\<close>

datatype node =
    Module "node list"
  | FunctionDef string int "int option" "string option" "node list"
  | AsyncFunctionDef string int "int option" "string option" "node list"
  | ClassDef string int "int option" "string option" "node list"
  | Other "node list"

fun iter_child_nodes :: "node \<Rightarrow> node list" where
  "iter_child_nodes (Module ns) = ns"
| "iter_child_nodes (FunctionDef nm l e d ns) = ns"
| "iter_child_nodes (AsyncFunctionDef nm l e d ns) = ns"
| "iter_child_nodes (ClassDef nm l e d ns) = ns"
| "iter_child_nodes (Other ns) = ns"

text \<open>
  \<open>ast.walk\<close>: a queue of nodes to visit; the first is taken, its children are put at
  the end of the queue, and it is yielded.
\<close>

function walk_queue :: "node list \<Rightarrow> node list" where
  "walk_queue [] = []"
| "walk_queue (n # todo) = n # walk_queue (todo @ iter_child_nodes n)"
  by pat_completeness auto
termination
proof (relation "measure (size_list size)")
  show "wf (measure (size_list size))" by simp
next
  fix n :: node and todo :: "node list"
  show "(todo @ iter_child_nodes n, n # todo) \<in> measure (size_list size)"
    by (cases n) simp_all
qed

definition walk :: "node \<Rightarrow> node list" where
  "walk tree = walk_queue [tree]"

text \<open>\<open>node.end_lineno or start_line\<close>: \<open>None\<close> and \<open>0\<close> are falsy.\<close>

definition end_lineno_or :: "int option \<Rightarrow> int \<Rightarrow> int" where
  "end_lineno_or e start = (case e of None \<Rightarrow> start | Some v \<Rightarrow> if v = 0 then start else v)"

text \<open>\<open>ast.get_docstring(node) or ""\<close>.\<close>

definition docstring_or_empty :: "string option \<Rightarrow> string" where
  "docstring_or_empty d = (case d of None \<Rightarrow> [] | Some s \<Rightarrow> s)"

text \<open>
  \<open>_parse_python_function\<close> and \<open>_parse_python_class\<close>, which differ in the chunk type
  only; the node is given by its fields.
\<close>

definition parse_python_def ::
  "string \<Rightarrow> nat \<Rightarrow> string \<Rightarrow> int \<Rightarrow> int option \<Rightarrow> string option \<Rightarrow> string list \<Rightarrow> string
     \<Rightarrow> CodeChunk \<times> nat" where
  "parse_python_def ty chunk_counter nm lineno end_lineno doc lines fp =
     (let start_line = lineno;
          end_line = end_lineno_or end_lineno start_line;
          code_lines = slice lines (start_line - 1) end_line
      in create_chunk chunk_counter ty nm (join [CHR 0x0A] code_lines) fp start_line end_line
           ''python'' (docstring_or_empty doc))"

text \<open>The loop over \<open>ast.walk(tree)\<close> of \<open>parse_python_file\<close>.\<close>

fun parse_python_nodes :: "string list \<Rightarrow> string \<Rightarrow> nat \<Rightarrow> node list \<Rightarrow> CodeChunk list \<times> nat" where
  "parse_python_nodes lines fp chunk_counter [] = ([], chunk_counter)"
| "parse_python_nodes lines fp chunk_counter (FunctionDef nm l e d ns # rest) =
     (let (c, k) = parse_python_def ''function'' chunk_counter nm l e d lines fp;
          (cs, k') = parse_python_nodes lines fp k rest
      in (c # cs, k'))"
| "parse_python_nodes lines fp chunk_counter (ClassDef nm l e d ns # rest) =
     (let (c, k) = parse_python_def ''class'' chunk_counter nm l e d lines fp;
          (cs, k') = parse_python_nodes lines fp k rest
      in (c # cs, k'))"
| "parse_python_nodes lines fp chunk_counter (n # rest) =
     parse_python_nodes lines fp chunk_counter rest"

text \<open>
  \<open>parse_python_file\<close>. \<open>ast_parse\<close> is \<open>ast.parse\<close>: the tree, or the
  \<open>SyntaxError\<close> it raised. Both exception handlers return the chunks collected so
  far, which are none when reading or parsing fails.
\<close>

definition parse_python_file ::
  "(string \<Rightarrow> exn + node) \<Rightarrow> nat \<Rightarrow> source_file \<Rightarrow> CodeChunk list \<times> nat" where
  "parse_python_file ast_parse chunk_counter f =
     (case read_result f of
        Inl e \<Rightarrow> ([], chunk_counter)
      | Inr content \<Rightarrow>
          (let lines = splitlines content in
           case ast_parse content of
             Inl e \<Rightarrow> ([], chunk_counter)
           | Inr tree \<Rightarrow>
               (let (module_chunk, k) =
                      create_chunk chunk_counter ''module'' (stem f)
                        (take (min 1000 (length content)) content) (relative_path f)
                        1 (int (length lines)) ''python'' [];
                    (cs, k') = parse_python_nodes lines (relative_path f) k (walk tree)
                in (module_chunk # cs, k'))))"

subsection \<open>JavaScript and TypeScript files\<close>

text \<open>
  A match of the function-declaration pattern: \<open>match.group(1)\<close>, \<open>match.start()\<close>
  and \<open>match.end()\<close>. \<open>finditer content\<close> is the list of matches of
  \<open>re.finditer(func_pattern, content)\<close>.
\<close>

record re_match =
  group1 :: string
  m_start :: nat
  m_end :: nat

text \<open>
  The loop that looks for the closing brace: \<open>rest\<close> is \<open>content[pos:]\<close>; the result is
  the last value of \<open>pos\<close>.
\<close>

fun scan_braces :: "string \<Rightarrow> nat \<Rightarrow> nat \<Rightarrow> nat" where
  "scan_braces [] brace_count pos = pos"
| "scan_braces (c # rest) brace_count pos =
     (if brace_count > 0
      then scan_braces rest
             (if c = CHR ''{'' then brace_count + 1
              else if c = CHR ''}'' then brace_count - 1
              else brace_count)
             (pos + 1)
      else pos)"

fun parse_javascript_matches ::
  "string \<Rightarrow> string list \<Rightarrow> string \<Rightarrow> string \<Rightarrow> nat \<Rightarrow> re_match list \<Rightarrow> CodeChunk list \<times> nat" where
  "parse_javascript_matches content lines fp lang chunk_counter [] = ([], chunk_counter)"
| "parse_javascript_matches content lines fp lang chunk_counter (m # ms) =
     (let func_name = group1 m;
          start_pos = m_start m;
          start_line = int (count_nl (take start_pos content)) + 1;
          pos = scan_braces (drop (m_end m) content) 1 (m_end m);
          end_line = int (count_nl (take pos content)) + 1;
          code_lines = slice lines (start_line - 1) end_line;
          (c, k) = create_chunk chunk_counter ''function'' func_name (join [CHR 0x0A] code_lines)
                     fp start_line end_line lang [];
          (cs, k') = parse_javascript_matches content lines fp lang k ms
      in (c # cs, k'))"

definition parse_javascript_file ::
  "(string \<Rightarrow> re_match list) \<Rightarrow> nat \<Rightarrow> source_file \<Rightarrow> CodeChunk list \<times> nat" where
  "parse_javascript_file finditer chunk_counter f =
     (case read_result f of
        Inl e \<Rightarrow> ([], chunk_counter)
      | Inr content \<Rightarrow>
          (let lines = splitlines content;
               lang = (if ends_with ''.ts'' (path f) \<or> ends_with ''.tsx'' (path f)
                       then ''typescript'' else ''javascript'');
               (cs, k) = parse_javascript_matches content lines (relative_path f) lang
                           chunk_counter (finditer content);
               (module_chunk, k') =
                 create_chunk k ''module'' (stem f) (take (min 1000 (length content)) content)
                   (relative_path f) 1 (int (length lines)) lang []
           in (cs @ [module_chunk], k')))"

subsection \<open>Other files\<close>

text \<open>The body of the loop over \<open>range(0, len(content), chunk_size)\<close>.\<close>

fun parse_generic_windows ::
  "string \<Rightarrow> nat \<Rightarrow> string \<Rightarrow> string \<Rightarrow> string \<Rightarrow> nat \<Rightarrow> nat list \<Rightarrow> CodeChunk list \<times> nat" where
  "parse_generic_windows content chunk_size st fp lang chunk_counter [] = ([], chunk_counter)"
| "parse_generic_windows content chunk_size st fp lang chunk_counter (i # is) =
     (let chunk_content = slice content (int i) (int (i + chunk_size));
          start_line = int (count_nl (take i content)) + 1;
          end_line = int (count_nl (take (i + length chunk_content) content)) + 1;
          (c, k) = create_chunk chunk_counter ''module''
                     (st @ ''_part_'' @ dec (i div chunk_size + 1)) chunk_content fp
                     start_line end_line lang [];
          (cs, k') = parse_generic_windows content chunk_size st fp lang k is
      in (c # cs, k'))"

text \<open>
  \<open>parse_generic_file\<close>; \<open>max_chunk_size\<close> is \<open>settings.max_chunk_size\<close>. A step of
  \<open>0\<close> makes \<open>range\<close> raise \<open>ValueError\<close>, which the handler turns into no chunks; a
  negative step gives an empty range.
\<close>

definition parse_generic_file :: "int \<Rightarrow> nat \<Rightarrow> source_file \<Rightarrow> CodeChunk list \<times> nat" where
  "parse_generic_file max_chunk_size chunk_counter f =
     (case read_result f of
        Inl e \<Rightarrow> ([], chunk_counter)
      | Inr content \<Rightarrow>
          (let ext = suffix f;
               lang = (if ext \<noteq> [] then drop 1 ext else ''unknown'')
           in if max_chunk_size \<le> 0 then ([], chunk_counter)
              else parse_generic_windows content (nat max_chunk_size) (stem f) (relative_path f)
                     lang chunk_counter (range_step (length content) (nat max_chunk_size))))"

text \<open>\<open>parse_file\<close>: the parser is chosen by the lower-cased suffix.\<close>

definition parse_file ::
  "(string \<Rightarrow> exn + node) \<Rightarrow> (string \<Rightarrow> re_match list) \<Rightarrow> int \<Rightarrow> nat \<Rightarrow> source_file
     \<Rightarrow> CodeChunk list \<times> nat" where
  "parse_file ast_parse finditer max_chunk_size chunk_counter f =
     (if suffix f = ''.py'' then parse_python_file ast_parse chunk_counter f
      else if suffix f \<in> set [''.js'', ''.jsx'', ''.ts'', ''.tsx'']
      then parse_javascript_file finditer chunk_counter f
      else parse_generic_file max_chunk_size chunk_counter f)"

section \<open>Embedding service (embedding\_service.py)\<close>

text \<open>
  The sentence-transformers model is a parameter: \<open>encode texts\<close> is the list of
  vectors of \<open>SentenceTransformer.encode\<close>, or the exception it raised. The vectors
  are of an arbitrary type \<open>'v\<close>.
\<close>

definition embedding_texts :: "CodeChunk list \<Rightarrow> string list" where
  "embedding_texts chunks = map (take 2000) (map get_context_text chunks)"

definition generate_embeddings ::
  "(string list \<Rightarrow> exn + 'v list) \<Rightarrow> CodeChunk list \<Rightarrow> exn + 'v list" where
  "generate_embeddings encode chunks =
     (if chunks = [] then Inr []
      else (case encode (embedding_texts chunks) of
              Inr embeddings \<Rightarrow> Inr embeddings
            | Inl e \<Rightarrow> Inl (EmbeddingException (''Failed to generate embeddings: '' @ str_exn e))))"

section \<open>What the parser is expected to emit\<close>


fun is_definition :: "node \<Rightarrow> bool" where
  "is_definition (FunctionDef nm l e d ns) = True"
| "is_definition (ClassDef nm l e d ns) = True"
| "is_definition n = False"



text \<open>
  The line invariant of a chunk, and the trees whose definition nodes have
  \<open>1 \<le> lineno \<le> end_lineno\<close>, as the trees of \<open>ast.parse\<close> have.
\<close>

definition lines_ok :: "CodeChunk \<Rightarrow> bool" where
  "lines_ok c = (1 \<le> start_line c \<and> start_line c \<le> end_line c)"

fun wf_lineno :: "node \<Rightarrow> bool" where
  "wf_lineno (FunctionDef nm l e d ns) = (1 \<le> l \<and> (case e of None \<Rightarrow> True | Some v \<Rightarrow> l \<le> v))"
| "wf_lineno (ClassDef nm l e d ns) = (1 \<le> l \<and> (case e of None \<Rightarrow> True | Some v \<Rightarrow> l \<le> v))"
| "wf_lineno n = True"

section \<open>Session service (session\_service.py)\<close>

text \<open>
  JSON values, as \<open>json.loads\<close> returns them and \<open>json.dumps\<close> takes them. An object
  is a Python \<open>dict\<close>: an association list in insertion order.
\<close>

datatype json =
    JNull
  | JBool bool
  | JInt int
  | JStr string
  | JList "json list"
  | JObj "(string \<times> json) list"

text \<open>\<open>d.update(updates)\<close>: every item of \<open>updates\<close> is stored in \<open>d\<close>, in order.\<close>

definition dict_update :: "(string \<times> json) list \<Rightarrow> (string \<times> json) list \<Rightarrow> (string \<times> json) list" where
  "dict_update d updates = fold (\<lambda>(k, v). AList.update k v) updates d"

text \<open>
  The Redis database: a key is bound to its value and its remaining time to live in
  seconds; an expired key is unbound. \<open>SETEX\<close> refuses a time to live that is not
  positive.
\<close>

type_synonym redis = "string \<rightharpoonup> string \<times> int"

definition redis_get :: "redis \<Rightarrow> string \<Rightarrow> string option" where
  "redis_get r key = map_option fst (r key)"

definition redis_setex :: "redis \<Rightarrow> string \<Rightarrow> int \<Rightarrow> string \<Rightarrow> exn + redis" where
  "redis_setex r key seconds v =
     (if seconds \<le> 0 then Inl (PyException ''ResponseError'' ''invalid expire time in setex'')
      else Inr (r(key \<mapsto> (v, seconds))))"

text \<open>
  \<open>get_session\<close>. \<open>loads\<close> is \<open>json.loads\<close>, \<open>None\<close> when it raises
  \<open>JSONDecodeError\<close>, which the handler turns into \<open>SessionNotFoundException\<close>.
\<close>

definition get_session :: "(string \<Rightarrow> json option) \<Rightarrow> redis \<Rightarrow> string \<Rightarrow> exn + json" where
  "get_session loads r session_id =
     (let key = ''session:'' @ session_id in
      case redis_get r key of
        None \<Rightarrow> Inl (SessionNotFoundException session_id)
      | Some data \<Rightarrow>
          if data = [] then Inl (SessionNotFoundException session_id)
          else (case loads data of
                  None \<Rightarrow> Inl (SessionNotFoundException session_id)
                | Some session_data \<Rightarrow> Inr session_data))"

text \<open>
  \<open>update_session\<close>. \<open>dumps\<close> is \<open>json.dumps\<close>, \<open>session_ttl\<close> is
  \<open>settings.session_ttl\<close> and \<open>now\<close> is \<open>datetime.now().isoformat()\<close>. Both handlers
  re-raise, so an exception leaves the database as it was. A stored value that is not
  an object has no \<open>update\<close> method.
\<close>

definition update_session ::
  "(string \<Rightarrow> json option) \<Rightarrow> (json \<Rightarrow> string) \<Rightarrow> int \<Rightarrow> string \<Rightarrow> redis \<Rightarrow> string
     \<Rightarrow> (string \<times> json) list \<Rightarrow> (exn + unit) \<times> redis" where
  "update_session loads dumps session_ttl now r session_id updates =
     (case get_session loads r session_id of
        Inl e \<Rightarrow> (Inl e, r)
      | Inr (JObj session_data) \<Rightarrow>
          (let session_data1 = dict_update session_data updates;
               session_data2 = AList.update ''last_activity'' (JStr now) session_data1;
               key = ''session:'' @ session_id
           in case redis_setex r key session_ttl (dumps (JObj session_data2)) of
                Inl e \<Rightarrow> (Inl e, r)
              | Inr r' \<Rightarrow> (Inr (), r'))
      | Inr other \<Rightarrow> (Inl (PyException ''AttributeError'' ''object has no attribute update''), r))"

section \<open>Vector service (vector\_service.py)\<close>

text \<open>
  The ChromaDB client, as far as the service relies on it. The database binds a
  collection name to the entries added to the collection, in order; an entry is an
  identifier, a document, its metadata and its embedding. What the backend decides
  is a parameter: \<open>valid_name\<close> (the names \<open>create_collection\<close> accepts), \<open>accepts\<close>
  (whether \<open>add\<close> takes a batch, given the entries of the collection) and \<open>dist\<close> (the
  distance of the collection's metric). Vectors are of an arbitrary type \<open>'v\<close>.
\<close>

record 'v entry =
  entry_id :: string
  document :: string
  metadata :: "(string \<times> string) list"
  embedding :: 'v

type_synonym 'v chroma = "string \<rightharpoonup> 'v entry list"

record 'v backend =
  valid_name :: "string \<Rightarrow> bool"
  accepts :: "'v entry list \<Rightarrow> 'v entry list \<Rightarrow> bool"
  dist :: "'v \<Rightarrow> 'v \<Rightarrow> real"

definition client_delete_collection :: "'v chroma \<Rightarrow> string \<Rightarrow> exn + 'v chroma" where
  "client_delete_collection db nm =
     (case db nm of
        None \<Rightarrow> Inl (PyException ''ValueError'' (''Collection '' @ nm @ '' does not exist.''))
      | Some col \<Rightarrow> Inr (db(nm := None)))"

definition client_create_collection :: "'v backend \<Rightarrow> 'v chroma \<Rightarrow> string \<Rightarrow> exn + 'v chroma" where
  "client_create_collection b db nm =
     (if \<not> valid_name b nm then Inl (PyException ''ValueError'' (''Invalid collection name '' @ nm))
      else case db nm of
             Some col \<Rightarrow> Inl (PyException ''ValueError'' (''Collection '' @ nm @ '' already exists.''))
           | None \<Rightarrow> Inr (db(nm \<mapsto> [])))"

definition client_get_collection :: "'v chroma \<Rightarrow> string \<Rightarrow> exn + 'v entry list" where
  "client_get_collection db nm =
     (case db nm of
        None \<Rightarrow> Inl (PyException ''ValueError'' (''Collection '' @ nm @ '' does not exist.''))
      | Some col \<Rightarrow> Inr col)"

definition make_entries ::
  "string list \<Rightarrow> string list \<Rightarrow> (string \<times> string) list list \<Rightarrow> 'v list \<Rightarrow> 'v entry list" where
  "make_entries ids documents metadatas embeddings =
     map (\<lambda>(i, d, m, e). \<lparr>entry_id = i, document = d, metadata = m, embedding = e\<rparr>)
       (zip ids (zip documents (zip metadatas embeddings)))"

text \<open>\<open>collection.add\<close> on the collection named \<open>nm\<close>: lists of unequal length are refused.\<close>

definition collection_add ::
  "'v backend \<Rightarrow> 'v chroma \<Rightarrow> string \<Rightarrow> string list \<Rightarrow> string list \<Rightarrow> (string \<times> string) list list
     \<Rightarrow> 'v list \<Rightarrow> exn + 'v chroma" where
  "collection_add b db nm ids documents metadatas embeddings =
     (case db nm of
        None \<Rightarrow> Inl (PyException ''ValueError'' (''Collection '' @ nm @ '' does not exist.''))
      | Some col \<Rightarrow>
          if length documents \<noteq> length ids \<or> length metadatas \<noteq> length ids
             \<or> length embeddings \<noteq> length ids
          then Inl (PyException ''ValueError'' ''Unequal lengths'')
          else if accepts b col (make_entries ids documents metadatas embeddings)
          then Inr (db(nm \<mapsto> col @ make_entries ids documents metadatas embeddings))
          else Inl (PyException ''ChromaError'' ''add failed''))"

text \<open>\<open>str(i)\<close> for an integer.\<close>

definition str_int :: "int \<Rightarrow> string" where
  "str_int i = (if i < 0 then ''-'' @ dec (nat (- i)) else dec (nat i))"


text \<open>\<open>VectorService.create_collection\<close>: the inner handler ignores a failed delete.\<close>

definition create_collection :: "'v backend \<Rightarrow> 'v chroma \<Rightarrow> string \<Rightarrow> (exn + unit) \<times> 'v chroma" where
  "create_collection b db session_id =
     (let collection_name = ''session_'' @ session_id;
          db1 = (case client_delete_collection db collection_name of Inl e \<Rightarrow> db | Inr db' \<Rightarrow> db')
      in case client_create_collection b db1 collection_name of
           Inl e \<Rightarrow> (Inl (VectorDBException (''Failed to create collection: '' @ str_exn e)), db1)
         | Inr db2 \<Rightarrow> (Inr (), db2))"

text \<open>The metadata stored with a chunk.\<close>

definition chunk_metadata :: "CodeChunk \<Rightarrow> (string \<times> string) list" where
  "chunk_metadata chunk =
     [(''file_path'', file_path chunk),
      (''type'', type chunk),
      (''name'', name chunk),
      (''language'', language chunk),
      (''lines'', str_int (start_line chunk) @ ''-'' @ str_int (end_line chunk)),
      (''docstring'', docstring chunk)]"

text \<open>
  The loop of \<open>insert_embeddings\<close> over \<open>range(0, len(ids), batch_size)\<close>: every
  \<open>add\<close> is written to the database at once, so the batches added before a failure
  stay.
\<close>

fun add_batches ::
  "'v backend \<Rightarrow> string \<Rightarrow> string list \<Rightarrow> string list \<Rightarrow> (string \<times> string) list list \<Rightarrow> 'v list
     \<Rightarrow> nat \<Rightarrow> 'v chroma \<Rightarrow> nat list \<Rightarrow> (exn + unit) \<times> 'v chroma" where
  "add_batches b nm ids documents metadatas embeddings_list batch_size db [] = (Inr (), db)"
| "add_batches b nm ids documents metadatas embeddings_list batch_size db (i # is) =
     (case collection_add b db nm
             (slice ids (int i) (int (i + batch_size)))
             (slice documents (int i) (int (i + batch_size)))
             (slice metadatas (int i) (int (i + batch_size)))
             (slice embeddings_list (int i) (int (i + batch_size))) of
        Inl e \<Rightarrow> (Inl e, db)
      | Inr db' \<Rightarrow> add_batches b nm ids documents metadatas embeddings_list batch_size db' is)"

definition insert_embeddings ::
  "'v backend \<Rightarrow> 'v chroma \<Rightarrow> string \<Rightarrow> CodeChunk list \<Rightarrow> 'v list \<Rightarrow> (exn + unit) \<times> 'v chroma" where
  "insert_embeddings b db session_id chunks embeddings =
     (let collection_name = ''session_'' @ session_id in
      case client_get_collection db collection_name of
        Inl e \<Rightarrow> (Inl (VectorDBException (''Failed to insert embeddings: '' @ str_exn e)), db)
      | Inr collection \<Rightarrow>
          (let ids = map chunk_id chunks;
               documents = map code chunks;
               metadatas = map chunk_metadata chunks;
               batch_size = 1000
           in case add_batches b collection_name ids documents metadatas embeddings batch_size db
                     (range_step (length ids) batch_size) of
                (Inl e, db') \<Rightarrow>
                  (Inl (VectorDBException (''Failed to insert embeddings: '' @ str_exn e)), db')
              | (Inr u, db') \<Rightarrow> (Inr (), db')))"

text \<open>\<open>search_similar\<close>: a retrieval result is the dictionary built in its loop.\<close>

record retrieval_result =
  r_id :: string
  r_code :: string
  r_metadata :: "(string \<times> string) list"
  r_distance :: real


section \<open>RAG service (rag\_service.py)\<close>

text \<open>
  \<open>index_codebase\<close>: the handler logs and re-raises. The result is the dictionary it
  returns without \<open>duration\<close>, which is a reading of the clock.
\<close>

record index_result =
  ir_session_id :: string
  chunks_indexed :: nat
  embeddings_generated :: nat
  ir_status :: string

definition index_codebase ::
  "(string list \<Rightarrow> exn + 'v list) \<Rightarrow> 'v backend \<Rightarrow> 'v chroma \<Rightarrow> string \<Rightarrow> CodeChunk list
     \<Rightarrow> (exn + index_result) \<times> 'v chroma" where
  "index_codebase encode b db session_id chunks =
     (case generate_embeddings encode chunks of
        Inl e \<Rightarrow> (Inl e, db)
      | Inr embeddings \<Rightarrow>
          (case create_collection b db session_id of
             (Inl e, db1) \<Rightarrow> (Inl e, db1)
           | (Inr u, db1) \<Rightarrow>
               (case insert_embeddings b db1 session_id chunks embeddings of
                  (Inl e, db2) \<Rightarrow> (Inl e, db2)
                | (Inr u', db2) \<Rightarrow>
                    (Inr \<lparr>ir_session_id = session_id, chunks_indexed = length chunks,
                          embeddings_generated = length embeddings, ir_status = ''success''\<rparr>,
                     db2))))"

section \<open>LLM service (llm\_service.py)\<close>

text \<open>
  What the service reads of a chat completion: the message content of every choice,
  the usage block if there is one, and the outcome of reading the cost header
  (\<open>None\<close> when the response has no \<open>_response\<close> attribute or no
  \<open>x-ratelimit-cost\<close> header, otherwise the value of \<open>float(...)\<close> or the exception
  it raised).
\<close>

record token_usage =
  prompt_tokens :: int
  completion_tokens :: int
  total_tokens :: int

record response =
  choices :: "string option list"
  usage :: "token_usage option"
  ratelimit_cost :: "(exn + real) option"

record tokens =
  prompt :: "int option"
  completion :: "int option"
  total :: "int option"

record call_result =
  result_content :: "string option"
  result_tokens :: tokens
  result_cost :: "real option"

text \<open>
  The OpenRouter client is a parameter: \<open>create n model user_prompt\<close> is the outcome
  of the \<open>n\<close>-th call of \<open>client.chat.completions.create\<close> made so far, for this model
  and user message (the system prompt, the temperature and \<open>max_tokens\<close> are fixed).
\<close>

type_synonym client = "nat \<Rightarrow> string \<Rightarrow> string \<Rightarrow> exn + response"

text \<open>The handler of \<open>_call_model\<close>: every exception becomes an \<open>LLMException\<close>.\<close>

definition translate_error :: "string \<Rightarrow> exn \<Rightarrow> exn" where
  "translate_error model e =
     (let error_msg = str_exn e in
      if contains ''insufficient_quota'' (lower error_msg)
      then LLMException ''Insufficient quota on OpenRouter account''
      else if contains ''rate_limit'' (lower error_msg)
      then LLMException ''Rate limit exceeded, please try again later''
      else if contains ''model_not_found'' (lower error_msg)
      then LLMException (''Model not found: '' @ model)
      else LLMException (''LLM request failed: '' @ error_msg))"

text \<open>
  The body of \<open>_call_model\<close>, without its decorator: one call of the client, inside
  \<open>try\<close>. \<open>response.choices[0]\<close> raises \<open>IndexError\<close> on an empty list.
\<close>

definition call_model_body :: "client \<Rightarrow> nat \<Rightarrow> string \<Rightarrow> string \<Rightarrow> exn + call_result" where
  "call_model_body create n model user_prompt =
     (case create n model user_prompt of
        Inl e \<Rightarrow> Inl (translate_error model e)
      | Inr response \<Rightarrow>
          (case choices response of
             [] \<Rightarrow> Inl (translate_error model (PyException ''IndexError'' ''list index out of range''))
           | message_content # others \<Rightarrow>
               (let tks = (case usage response of
                             None \<Rightarrow> \<lparr>prompt = None, completion = None, total = None\<rparr>
                           | Some u \<Rightarrow> \<lparr>prompt = Some (prompt_tokens u),
                                        completion = Some (completion_tokens u),
                                        total = Some (total_tokens u)\<rparr>)
                in case ratelimit_cost response of
                     None \<Rightarrow> Inr \<lparr>result_content = message_content, result_tokens = tks, result_cost = None\<rparr>
                   | Some (Inl e) \<Rightarrow> Inl (translate_error model e)
                   | Some (Inr c) \<Rightarrow>
                       Inr \<lparr>result_content = message_content, result_tokens = tks, result_cost = Some c\<rparr>)))"

text \<open>
  The decorator of \<open>_call_model\<close>, tenacity's
  \<open>retry(stop=stop_after_attempt(3), wait=wait_exponential(multiplier=1, min=2, max=10),
  retry=retry_if_exception_type((httpx.TimeoutException, httpx.NetworkError)))\<close>:
  the function is called; a result is returned; an exception that is not of the two
  classes is raised as it is; otherwise, after the last attempt \<open>RetryError\<close> is
  raised, and before it the decorator sleeps and calls again. \<open>retrying\<close> returns the
  outcome and the seconds slept before each further attempt; \<open>f n\<close> is the outcome
  of the function when it makes the \<open>n\<close>-th call of the client.
\<close>

fun retry_if_exception_type :: "exn \<Rightarrow> bool" where
  "retry_if_exception_type (TimeoutException m) = True"
| "retry_if_exception_type (NetworkError m) = True"
| "retry_if_exception_type e = False"

definition wait_exponential :: "nat \<Rightarrow> nat" where
  "wait_exponential attempt_number = max 2 (min (1 * 2 ^ (attempt_number - 1)) 10)"

fun retrying :: "nat \<Rightarrow> (nat \<Rightarrow> exn + 'a) \<Rightarrow> nat \<Rightarrow> nat \<Rightarrow> (exn + 'a) \<times> nat list" where
  "retrying 0 f n attempt_number = (Inl (PyException ''RetryError'' ''RetryError''), [])"
| "retrying (Suc remaining) f n attempt_number =
     (case f n of
        Inr r \<Rightarrow> (Inr r, [])
      | Inl e \<Rightarrow>
          if \<not> retry_if_exception_type e then (Inl e, [])
          else if remaining = 0 then (Inl (PyException ''RetryError'' ''RetryError''), [])
          else (let (outcome, waits) = retrying remaining f (n + 1) (attempt_number + 1)
                in (outcome, wait_exponential attempt_number # waits)))"

text \<open>\<open>_call_model\<close> as decorated: the outcome and the waits between its attempts.\<close>

definition call_model :: "client \<Rightarrow> nat \<Rightarrow> string \<Rightarrow> string \<Rightarrow> (exn + call_result) \<times> nat list" where
  "call_model create n model user_prompt =
     retrying 3 (\<lambda>k. call_model_body create k model user_prompt) n 1"

text \<open>
  \<open>_build_context\<close>: one block per retrieved chunk, numbered from 1; a metadata key
  that is missing raises \<open>KeyError\<close>.
\<close>

definition lookup_key :: "(string \<times> string) list \<Rightarrow> string \<Rightarrow> exn + string" where
  "lookup_key d k = (case map_of d k of None \<Rightarrow> Inl (PyException ''KeyError'' k) | Some v \<Rightarrow> Inr v)"

definition context_part :: "nat \<Rightarrow> retrieval_result \<Rightarrow> exn + string" where
  "context_part i chunk =
     (case lookup_key (r_metadata chunk) ''file_path'' of Inl e \<Rightarrow> Inl e | Inr fp \<Rightarrow>
      case lookup_key (r_metadata chunk) ''type'' of Inl e \<Rightarrow> Inl e | Inr ty \<Rightarrow>
      case lookup_key (r_metadata chunk) ''name'' of Inl e \<Rightarrow> Inl e | Inr nm \<Rightarrow>
      case lookup_key (r_metadata chunk) ''lines'' of Inl e \<Rightarrow> Inl e | Inr lns \<Rightarrow>
      case lookup_key (r_metadata chunk) ''language'' of Inl e \<Rightarrow> Inl e | Inr lang \<Rightarrow>
        Inr ([CHR 0x0A] @ ''### Code Snippet '' @ dec i @ [CHR 0x0A]
             @ ''**File:** '' @ [CHR 0x60] @ fp @ [CHR 0x60] @ [CHR 0x0A]
             @ ''**Type:** '' @ ty @ '' - '' @ nm @ [CHR 0x0A]
             @ ''**Lines:** '' @ lns @ [CHR 0x0A]
             @ ''**Language:** '' @ lang @ [CHR 0x0A]
             @ [CHR 0x60, CHR 0x60, CHR 0x60] @ lang @ [CHR 0x0A]
             @ r_code chunk @ [CHR 0x0A]
             @ [CHR 0x60, CHR 0x60, CHR 0x60] @ [CHR 0x0A]))"

fun context_parts :: "nat \<Rightarrow> retrieval_result list \<Rightarrow> exn + string list" where
  "context_parts i [] = Inr []"
| "context_parts i (chunk # rest) =
     (case context_part i chunk of
        Inl e \<Rightarrow> Inl e
      | Inr part \<Rightarrow> (case context_parts (i + 1) rest of Inl e \<Rightarrow> Inl e | Inr parts \<Rightarrow> Inr (part # parts)))"

definition build_context :: "retrieval_result list \<Rightarrow> exn + string" where
  "build_context code_chunks =
     (case context_parts 1 code_chunks of Inl e \<Rightarrow> Inl e | Inr parts \<Rightarrow> Inr (join [CHR 0x0A] parts))"

definition user_prompt_of :: "string \<Rightarrow> string \<Rightarrow> string" where
  "user_prompt_of context question =
     ''Based on the following code from the repository:'' @ [CHR 0x0A, CHR 0x0A]
     @ context @ [CHR 0x0A, CHR 0x0A]
     @ ''Question: '' @ question @ [CHR 0x0A, CHR 0x0A]
     @ ''Please provide a comprehensive explanation.''"

text \<open>
  The settings the service copies in \<open>__init__\<close>, and \<open>models_to_try\<close> as
  \<open>generate_explanation\<close> builds it. \<open>model\<close> is an \<open>Optional[str]\<close>: \<open>None\<close> and the
  empty string are falsy.
\<close>

record llm_settings =
  default_model :: string
  fallback_models :: "string list"
  enable_fallback :: bool

definition truthy :: "string option \<Rightarrow> bool" where
  "truthy model = (case model of None \<Rightarrow> False | Some m \<Rightarrow> m \<noteq> [])"

definition models_to_try :: "llm_settings \<Rightarrow> string option \<Rightarrow> string list" where
  "models_to_try cfg model =
     [if truthy model then the model else default_model cfg]
     @ (if enable_fallback cfg \<and> \<not> truthy model then fallback_models cfg else [])"

record explanation =
  answer :: "string option"
  model_used :: string
  answer_tokens :: tokens
  answer_cost :: "real option"

text \<open>\<open>str(last_error)\<close>, where \<open>last_error\<close> starts as \<open>None\<close>.\<close>

definition str_last_error :: "exn option \<Rightarrow> string" where
  "str_last_error last_error = (case last_error of None \<Rightarrow> ''None'' | Some e \<Rightarrow> str_exn e)"

text \<open>
  The loop of \<open>generate_explanation\<close> over \<open>models_to_try\<close>; \<open>n\<close> counts the calls of
  the client made so far and is returned updated.
\<close>

fun try_models ::
  "client \<Rightarrow> string \<Rightarrow> nat \<Rightarrow> exn option \<Rightarrow> string list \<Rightarrow> (exn + explanation) \<times> nat" where
  "try_models create user_prompt n last_error [] =
     (Inl (LLMException (''All models failed. Last error: '' @ str_last_error last_error)), n)"
| "try_models create user_prompt n last_error (current_model # rest) =
     (case call_model create n current_model user_prompt of
        (Inr result, waits) \<Rightarrow>
          (Inr \<lparr>answer = result_content result, model_used = current_model,
                answer_tokens = result_tokens result, answer_cost = result_cost result\<rparr>,
           n + Suc (length waits))
      | (Inl e, waits) \<Rightarrow> try_models create user_prompt (n + Suc (length waits)) (Some e) rest)"

definition generate_explanation ::
  "llm_settings \<Rightarrow> client \<Rightarrow> nat \<Rightarrow> string \<Rightarrow> retrieval_result list \<Rightarrow> string option
     \<Rightarrow> (exn + explanation) \<times> nat" where
  "generate_explanation cfg create n question code_chunks model =
     (case build_context code_chunks of
        Inl e \<Rightarrow> (Inl e, n)
      | Inr context \<Rightarrow>
          try_models create (user_prompt_of context question) n None (models_to_try cfg model))"

section \<open>Vector utilities (embedding\_service.py)\<close>

text \<open>
  The values of a numpy float (IEEE 754 binary32 or binary64): a finite real,
  where \<open>Finite 0\<close> is \<open>+0.0\<close>, the negative zero, the two infinities and \<open>nan\<close>.
\<close>

datatype npfloat = Finite real | NegZero | PInf | NInf | NaN

fun is_nan :: "npfloat \<Rightarrow> bool" where
  "is_nan NaN = True"
| "is_nan x = False"

fun is_inf :: "npfloat \<Rightarrow> bool" where
  "is_inf PInf = True"
| "is_inf NInf = True"
| "is_inf x = False"

fun is_zero :: "npfloat \<Rightarrow> bool" where
  "is_zero (Finite r) = (r = 0)"
| "is_zero NegZero = True"
| "is_zero x = False"

fun is_finite :: "npfloat \<Rightarrow> bool" where
  "is_finite (Finite r) = True"
| "is_finite NegZero = True"
| "is_finite x = False"

fun sign_bit :: "npfloat \<Rightarrow> bool" where
  "sign_bit (Finite r) = (r < 0)"
| "sign_bit NegZero = True"
| "sign_bit NInf = True"
| "sign_bit x = False"

fun real_of :: "npfloat \<Rightarrow> real" where
  "real_of (Finite r) = r"
| "real_of x = 0"

definition zero_with :: "bool \<Rightarrow> npfloat" where
  "zero_with negative = (if negative then NegZero else Finite 0)"

definition inf_with :: "bool \<Rightarrow> npfloat" where
  "inf_with negative = (if negative then NInf else PInf)"

text \<open>
  The arithmetic of IEEE 754, which numpy's \<open>*\<close>, \<open>+\<close>, \<open>sqrt\<close> and \<open>/\<close> perform on
  every element without raising: a division by zero yields an infinity or, for
  \<open>0/0\<close>, \<open>nan\<close>, with a warning. The special values are handled as the standard
  says. The rounding of the format is the parameter \<open>rnd\<close>: \<open>rnd r\<close> is the value the
  format gives for the exact nonzero result \<open>r\<close>, which is a zero on underflow and
  an infinity on overflow.
\<close>

definition fl_mul :: "(real \<Rightarrow> npfloat) \<Rightarrow> npfloat \<Rightarrow> npfloat \<Rightarrow> npfloat" where
  "fl_mul rnd x y =
     (if is_nan x \<or> is_nan y then NaN
      else if (is_inf x \<and> is_zero y) \<or> (is_zero x \<and> is_inf y) then NaN
      else if is_inf x \<or> is_inf y then inf_with (sign_bit x \<noteq> sign_bit y)
      else if is_zero x \<or> is_zero y then zero_with (sign_bit x \<noteq> sign_bit y)
      else rnd (real_of x * real_of y))"

definition fl_add :: "(real \<Rightarrow> npfloat) \<Rightarrow> npfloat \<Rightarrow> npfloat \<Rightarrow> npfloat" where
  "fl_add rnd x y =
     (if is_nan x \<or> is_nan y then NaN
      else if is_inf x \<and> is_inf y then (if sign_bit x = sign_bit y then x else NaN)
      else if is_inf x then x
      else if is_inf y then y
      else if is_zero x \<and> is_zero y then zero_with (sign_bit x \<and> sign_bit y)
      else if is_zero x then y
      else if is_zero y then x
      else if real_of x + real_of y = 0 then Finite 0
      else rnd (real_of x + real_of y))"

definition fl_sqrt :: "(real \<Rightarrow> npfloat) \<Rightarrow> npfloat \<Rightarrow> npfloat" where
  "fl_sqrt rnd x =
     (if is_nan x then NaN
      else if is_zero x then x
      else if sign_bit x then NaN
      else if is_inf x then PInf
      else rnd (sqrt (real_of x)))"

definition fl_div :: "(real \<Rightarrow> npfloat) \<Rightarrow> npfloat \<Rightarrow> npfloat \<Rightarrow> npfloat" where
  "fl_div rnd x y =
     (if is_nan x \<or> is_nan y then NaN
      else if (is_inf x \<and> is_inf y) \<or> (is_zero x \<and> is_zero y) then NaN
      else if is_inf x \<or> is_zero y then inf_with (sign_bit x \<noteq> sign_bit y)
      else if is_inf y \<or> is_zero x then zero_with (sign_bit x \<noteq> sign_bit y)
      else rnd (real_of x / real_of y))"

text \<open>
  \<open>np.dot\<close> of two one-dimensional arrays, which raises \<open>ValueError\<close> when their
  lengths differ, and \<open>np.linalg.norm\<close>, which is \<open>sqrt(x.dot(x))\<close>. The products are
  added from the left to an accumulator that starts at \<open>0.0\<close>, as the reference
  loop does; an optimised loop may add them in another order, which changes a
  result only through the rounding of its partial sums.
\<close>

definition dot_sum :: "(real \<Rightarrow> npfloat) \<Rightarrow> npfloat list \<Rightarrow> npfloat list \<Rightarrow> npfloat" where
  "dot_sum rnd a b = foldl (fl_add rnd) (Finite 0) (map (\<lambda>(x, y). fl_mul rnd x y) (zip a b))"

definition np_dot :: "(real \<Rightarrow> npfloat) \<Rightarrow> npfloat list \<Rightarrow> npfloat list \<Rightarrow> exn + npfloat" where
  "np_dot rnd a b =
     (if length a \<noteq> length b then Inl (PyException ''ValueError'' ''shapes not aligned'')
      else Inr (dot_sum rnd a b))"

definition linalg_norm :: "(real \<Rightarrow> npfloat) \<Rightarrow> npfloat list \<Rightarrow> npfloat" where
  "linalg_norm rnd x = fl_sqrt rnd (dot_sum rnd x x)"

text \<open>\<open>normalize_embeddings\<close> and \<open>cosine_similarity\<close>.\<close>

definition normalize_embeddings ::
  "(real \<Rightarrow> npfloat) \<Rightarrow> npfloat list list \<Rightarrow> npfloat list list" where
  "normalize_embeddings rnd embeddings =
     map (\<lambda>emb. map (\<lambda>x. fl_div rnd x (linalg_norm rnd emb)) emb) embeddings"

definition cosine_similarity ::
  "(real \<Rightarrow> npfloat) \<Rightarrow> npfloat list \<Rightarrow> npfloat list \<Rightarrow> exn + npfloat" where
  "cosine_similarity rnd emb1 emb2 =
     (case np_dot rnd emb1 emb2 of
        Inl e \<Rightarrow> Inl e
      | Inr d \<Rightarrow> Inr (fl_div rnd d (fl_mul rnd (linalg_norm rnd emb1) (linalg_norm rnd emb2))))"

text \<open>A zero vector: every component is \<open>0.0\<close> or \<open>-0.0\<close>.\<close>

definition is_zero_vector :: "npfloat list \<Rightarrow> bool" where
  "is_zero_vector v = list_all is_zero v"

text \<open>
  A rounding that keeps a real inside the range of a format and sends the others to
  a zero or an infinity, and its instance for the range of binary32, the format of
  the embeddings.
\<close>

definition round_range :: "real \<Rightarrow> real \<Rightarrow> real \<Rightarrow> npfloat" where
  "round_range tiny huge r =
     (if \<bar>r\<bar> < tiny then zero_with (r < 0)
      else if huge \<le> \<bar>r\<bar> then inf_with (r < 0)
      else Finite r)"

definition binary32_range :: "real \<Rightarrow> npfloat" where
  "binary32_range = round_range (1 / 2 ^ 150) (2 ^ 128)"

section \<open>Theorems\<close>

subsection \<open>The text handed to the embedding model\<close>

lemma join_context_parts:
  "join sep ([a, b, c] @ (if d then [x] else []) @ [y]) =
     a @ sep @ b @ sep @ c @ sep @ (if d then x @ sep else []) @ y"
  by simp

text \<open>
  C6. For every non-empty list of chunks the embedding model is called once, on the
  list that holds for each chunk, in order, the first 2000 characters of: the line
  \<open>File: <path>\<close>, the line \<open>Language: <language>\<close>, the line
  \<open><Kind>: <name>\<close> (the kind capitalised), the line \<open>Documentation: <docstring>\<close>
  only when the docstring is not empty, and \<open>Code:\<close> followed on the next line by the
  raw code. Truncation never fails: every text has at most 2000 characters and a
  text within the cap is passed whole.
\<close>

theorem embedding_text_exact:
  "embedding_texts chunks =
     map (\<lambda>c. take 2000
            (''File: '' @ file_path c @ [CHR 0x0A]
             @ ''Language: '' @ language c @ [CHR 0x0A]
             @ capitalize (type c) @ '': '' @ name c @ [CHR 0x0A]
             @ (if docstring c \<noteq> [] then ''Documentation: '' @ docstring c @ [CHR 0x0A] else [])
             @ ''Code:'' @ [CHR 0x0A] @ code c)) chunks
   \<and> list_all (\<lambda>t. length t \<le> 2000) (embedding_texts chunks)
   \<and> (chunks \<noteq> [] \<longrightarrow>
        generate_embeddings encode chunks =
          (case encode (embedding_texts chunks) of
             Inr embeddings \<Rightarrow> Inr embeddings
           | Inl e \<Rightarrow> Inl (EmbeddingException (''Failed to generate embeddings: '' @ str_exn e))))"
proof (intro conjI impI)
  show "embedding_texts chunks =
     map (\<lambda>c. take 2000
            (''File: '' @ file_path c @ [CHR 0x0A]
             @ ''Language: '' @ language c @ [CHR 0x0A]
             @ capitalize (type c) @ '': '' @ name c @ [CHR 0x0A]
             @ (if docstring c \<noteq> [] then ''Documentation: '' @ docstring c @ [CHR 0x0A] else [])
             @ ''Code:'' @ [CHR 0x0A] @ code c)) chunks"
    unfolding embedding_texts_def get_context_text_def join_context_parts
    by simp
next
  show "list_all (\<lambda>t. length t \<le> 2000) (embedding_texts chunks)"
    by (simp add: embedding_texts_def list_all_iff)
next
  assume "chunks \<noteq> []"
  then show "generate_embeddings encode chunks =
          (case encode (embedding_texts chunks) of
             Inr embeddings \<Rightarrow> Inr embeddings
           | Inl e \<Rightarrow> Inl (EmbeddingException (''Failed to generate embeddings: '' @ str_exn e)))"
    by (simp add: generate_embeddings_def)
qed

theorem embedding_text_exact_witness:
  "embedding_texts
     [\<lparr>chunk_id = ''chunk_000001'', type = ''function'', name = ''f'', code = ''def f(): pass'',
       file_path = ''a.py'', start_line = 1, end_line = 1, language = ''python'',
       docstring = ''Does f.'', chunk_imports = []\<rparr>]
   = [''File: a.py'' @ [CHR 0x0A] @ ''Language: python'' @ [CHR 0x0A] @ ''Function: f'' @ [CHR 0x0A]
      @ ''Documentation: Does f.'' @ [CHR 0x0A] @ ''Code:'' @ [CHR 0x0A] @ ''def f(): pass'']
   \<and> generate_embeddings (\<lambda>texts. Inr (map length texts))
       [\<lparr>chunk_id = ''chunk_000001'', type = ''function'', name = ''f'', code = ''def f(): pass'',
         file_path = ''a.py'', start_line = 1, end_line = 1, language = ''python'',
         docstring = ''Does f.'', chunk_imports = []\<rparr>]
     = Inr [82]"
  using embedding_text_exact
    [of "[\<lparr>chunk_id = ''chunk_000001'', type = ''function'', name = ''f'', code = ''def f(): pass'',
           file_path = ''a.py'', start_line = 1, end_line = 1, language = ''python'',
           docstring = ''Does f.'', chunk_imports = []\<rparr>]"
        "\<lambda>texts. Inr (map length texts)"]
  by (simp add: upper_char_def lower_char_def)

subsection \<open>The parser\<close>






lemma parse_python_nodes_none:
  "\<not> list_ex is_definition ns \<Longrightarrow> fst (parse_python_nodes lines fp k ns) = []"
proof (induction ns arbitrary: k)
  case Nil
  show ?case by simp
next
  case (Cons n ns)
  then show ?case by (cases n) simp_all
qed

lemma parse_python_file_ok:
  assumes "read_result f = Inr content" and "ast_parse content = Inr tree"
  shows "fst (parse_python_file ast_parse k f) =
            fst (create_chunk k ''module'' (stem f) (take (min 1000 (length content)) content)
                  (relative_path f) 1 (int (length (splitlines content))) ''python'' [])
            # fst (parse_python_nodes (splitlines content) (relative_path f) (k + 1) (walk tree))"
  using assms by (simp add: parse_python_file_def Let_def split_def create_chunk_def)

lemma length_parse_generic_windows:
  "length (fst (parse_generic_windows content cs st fp lang k is)) = length is"
  by (induction "is" arbitrary: k) (simp_all add: split_def Let_def)

lemma types_parse_generic_windows:
  "list_all (\<lambda>c. type c = ''module'') (fst (parse_generic_windows content cs st fp lang k is))"
  by (induction "is" arbitrary: k) (simp_all add: split_def Let_def create_chunk_def)

lemma length_parse_generic_file:
  assumes "read_result f = Inr content" and "0 < max_chunk_size"
  shows "length (fst (parse_generic_file max_chunk_size k f)) =
           (length content + nat max_chunk_size - 1) div nat max_chunk_size"
  using assms
  by (simp add: parse_generic_file_def Let_def length_parse_generic_windows range_step_def)

lemma range_step_single:
  "0 < n \<Longrightarrow> n \<le> step \<Longrightarrow> range_step n step = [0]"
proof -
  assume a: "0 < n" "n \<le> step"
  then have "(n + step - 1) div step = 1"
    by (simp add: div_nat_eqI)
  then show ?thesis by (simp add: range_step_def)
qed




lemma parse_javascript_file_no_match:
  assumes "read_result f = Inr content" and "finditer content = []"
  shows "\<exists>m. fst (parse_javascript_file finditer k f) = [m] \<and> type m = ''module''"
  using assms by (simp add: parse_javascript_file_def Let_def create_chunk_def)

lemma parse_python_file_no_definition:
  assumes "read_result f = Inr content" and "ast_parse content = Inr tree"
    and "\<not> list_ex is_definition (walk tree)"
  shows "\<exists>m. fst (parse_python_file ast_parse k f) = [m] \<and> type m = ''module''"
  using parse_python_file_ok [of f content ast_parse tree k] assms
    parse_python_nodes_none [of "walk tree" "splitlines content" "relative_path f" "k + 1"]
  by (simp add: create_chunk_def)

lemma parse_generic_file_one_window:
  assumes "read_result f = Inr content" and "0 < length content"
    and "int (length content) \<le> max_chunk_size"
  shows "\<exists>m. fst (parse_generic_file max_chunk_size k f) = [m] \<and> type m = ''module''"
proof -
  have "range_step (length content) (nat max_chunk_size) = [0]"
    using assms by (intro range_step_single) simp_all
  moreover have "\<not> max_chunk_size \<le> 0"
    using assms by linarith
  ultimately show ?thesis
    using assms(1) by (simp add: parse_generic_file_def Let_def split_def create_chunk_def)
qed

text \<open>
  C5, as the code has it. The generic strategy emits one module chunk per window of
  \<open>max_chunk_size\<close> characters: a file of 1001 characters and no construct gives two
  module chunks under the default size of 1000, and an empty file gives none.
\<close>

theorem generic_file_chunks_counterexample:
  "length (filter (\<lambda>c. type c = ''module'')
     (fst (parse_generic_file 1000 0
        \<lparr>read_result = Inr (replicate 1001 (CHR ''a'')), path = ''/repo/notes.txt'',
          relative_path = ''notes.txt'', stem = ''notes'', suffix = ''.txt''\<rparr>))) = 2
   \<and> fst (parse_generic_file 1000 0
        \<lparr>read_result = Inr [], path = ''/repo/empty.txt'',
          relative_path = ''empty.txt'', stem = ''empty'', suffix = ''.txt''\<rparr>) = []"
proof
  let ?f = "\<lparr>read_result = Inr (replicate 1001 (CHR ''a'')), path = ''/repo/notes.txt'',
          relative_path = ''notes.txt'', stem = ''notes'', suffix = ''.txt''\<rparr>"
  have "list_all (\<lambda>c. type c = ''module'') (fst (parse_generic_file 1000 0 ?f))"
    by (simp add: parse_generic_file_def Let_def types_parse_generic_windows)
  then have "filter (\<lambda>c. type c = ''module'') (fst (parse_generic_file 1000 0 ?f))
               = fst (parse_generic_file 1000 0 ?f)"
    by (simp add: list_all_iff)
  moreover have "length (fst (parse_generic_file 1000 0 ?f)) = 2"
    using length_parse_generic_file [of ?f "replicate 1001 (CHR ''a'')" 1000 0] by simp
  ultimately show "length (filter (\<lambda>c. type c = ''module'') (fst (parse_generic_file 1000 0 ?f))) = 2"
    by simp
next
  show "fst (parse_generic_file 1000 0
        \<lparr>read_result = Inr [], path = ''/repo/empty.txt'',
          relative_path = ''empty.txt'', stem = ''empty'', suffix = ''.txt''\<rparr>) = []"
    by (simp add: parse_generic_file_def range_step_def)
qed

text \<open>
  C5, amended. A readable file with no recognisable construct yields exactly one
  chunk, of type module, when it is a Python file that \<open>ast.parse\<close> accepts and whose
  tree holds no function or class definition, when it is a JavaScript or TypeScript
  file in which the function pattern has no match, and when it is a file of the
  generic strategy that is not empty and not longer than \<open>max_chunk_size\<close>.
\<close>

theorem one_module_chunk_without_constructs:
  assumes "read_result f = Inr content"
  shows "(ast_parse content = Inr tree \<and> \<not> list_ex is_definition (walk tree) \<longrightarrow>
            (\<exists>m. fst (parse_python_file ast_parse k f) = [m] \<and> type m = ''module''))
       \<and> (finditer content = [] \<longrightarrow>
            (\<exists>m. fst (parse_javascript_file finditer k f) = [m] \<and> type m = ''module''))
       \<and> (0 < length content \<and> int (length content) \<le> max_chunk_size \<longrightarrow>
            (\<exists>m. fst (parse_generic_file max_chunk_size k f) = [m] \<and> type m = ''module''))"
  using assms parse_python_file_no_definition [of f content ast_parse tree k]
    parse_javascript_file_no_match [of f content finditer k]
    parse_generic_file_one_window [of f content max_chunk_size k]
  by blast

theorem one_module_chunk_without_constructs_witness:
  "(\<exists>m. fst (parse_python_file (\<lambda>s. Inr (Module [Other [Other [], Other []]])) 0
             \<lparr>read_result = Inr ''x = 1'', path = ''/repo/a.py'', relative_path = ''a.py'',
               stem = ''a'', suffix = ''.py''\<rparr>) = [m] \<and> type m = ''module'')
   \<and> (\<exists>m. fst (parse_javascript_file (\<lambda>s. []) 0
             \<lparr>read_result = Inr ''x = 1'', path = ''/repo/a.py'', relative_path = ''a.py'',
               stem = ''a'', suffix = ''.py''\<rparr>) = [m] \<and> type m = ''module'')
   \<and> (\<exists>m. fst (parse_generic_file 1000 0
             \<lparr>read_result = Inr ''x = 1'', path = ''/repo/a.py'', relative_path = ''a.py'',
               stem = ''a'', suffix = ''.py''\<rparr>) = [m] \<and> type m = ''module'')"
  using one_module_chunk_without_constructs
    [of "\<lparr>read_result = Inr ''x = 1'', path = ''/repo/a.py'', relative_path = ''a.py'',
               stem = ''a'', suffix = ''.py''\<rparr>" "''x = 1''"
        "\<lambda>s. Inr (Module [Other [Other [], Other []]])" "Module [Other [Other [], Other []]]"
        0 "\<lambda>s. []" 1000]
  by (simp add: walk_def)

text \<open>
  The line invariant \<open>1 \<le> start_line \<le> end_line\<close> holds for every chunk of a file
  that is not empty, under each of the three strategies (for a tree with well-formed
  line numbers, and matches whose start is not after their end).
\<close>

lemma count_nl_take_mono: "i \<le> j \<Longrightarrow> count_nl (take i s) \<le> count_nl (take j s)"
proof -
  assume "i \<le> j"
  then obtain k where j: "j = i + k" using le_Suc_ex by blast
  have "take (i + k) s = take i s @ take k (drop i s)" by (rule take_add)
  then show ?thesis by (simp add: j count_nl_def)
qed

lemma scan_braces_ge: "pos \<le> scan_braces rest brace_count pos"
proof (induction rest arbitrary: brace_count pos)
  case Nil
  show ?case by simp
next
  case (Cons c rest)
  have "Suc pos \<le> scan_braces rest (if c = CHR ''{'' then brace_count + 1
              else if c = CHR ''}'' then brace_count - 1 else brace_count) (Suc pos)"
    by (rule Cons.IH)
  then show ?case by simp
qed

lemma splitlines_acc_nonempty: "s \<noteq> [] \<Longrightarrow> splitlines_acc cur s \<noteq> []"
  by (induction cur s rule: splitlines_acc.induct) simp_all

lemma splitlines_empty_iff: "splitlines s = [] \<longleftrightarrow> s = []"
  using splitlines_acc_nonempty [of s "[]"] by (auto simp: splitlines_def)

lemma generic_windows_lines_ok:
  "list_all lines_ok (fst (parse_generic_windows content cs st fp lang k is))"
proof (induction "is" arbitrary: k)
  case Nil
  show ?case by simp
next
  case (Cons i "is")
  have "count_nl (take i content)
          \<le> count_nl (take (i + length (slice content (int i) (int (i + cs)))) content)"
    by (rule count_nl_take_mono) simp
  then show ?case
    using Cons.IH by (simp add: split_def Let_def create_chunk_def lines_ok_def)
qed

lemma javascript_matches_lines_ok:
  "list_all (\<lambda>m. m_start m \<le> m_end m) ms \<Longrightarrow>
     list_all lines_ok (fst (parse_javascript_matches content lines fp lang k ms))"
proof (induction ms arbitrary: k)
  case Nil
  show ?case by simp
next
  case (Cons m ms)
  have "m_start m \<le> scan_braces (drop (m_end m) content) 1 (m_end m)"
    using Cons.prems scan_braces_ge [of "m_end m" "drop (m_end m) content" 1] by simp
  then have "count_nl (take (m_start m) content)
          \<le> count_nl (take (scan_braces (drop (m_end m) content) 1 (m_end m)) content)"
    by (rule count_nl_take_mono)
  then show ?case
    using Cons by (simp add: split_def Let_def create_chunk_def lines_ok_def)
qed

lemma python_nodes_lines_ok:
  "list_all wf_lineno ns \<Longrightarrow> list_all lines_ok (fst (parse_python_nodes lines fp k ns))"
proof (induction ns arbitrary: k)
  case Nil
  show ?case by simp
next
  case (Cons n ns)
  then show ?case
    by (cases n)
       (auto simp: split_def Let_def create_chunk_def lines_ok_def parse_python_def_def
          end_lineno_or_def split: option.splits)
qed

lemma chunk_lines_ok_nonempty_file:
  assumes "read_result f = Inr content" and "content \<noteq> []"
  shows "ast_parse content = Inr tree \<Longrightarrow> list_all wf_lineno (walk tree) \<Longrightarrow>
           list_all lines_ok (fst (parse_python_file ast_parse k f))"
    and "list_all (\<lambda>m. m_start m \<le> m_end m) (finditer content) \<Longrightarrow>
           list_all lines_ok (fst (parse_javascript_file finditer k f))"
    and "list_all lines_ok (fst (parse_generic_file max_chunk_size k f))"
proof -
  have len: "1 \<le> int (length (splitlines content))"
    using assms(2) splitlines_empty_iff [of content] by (cases "splitlines content") simp_all
  show "ast_parse content = Inr tree \<Longrightarrow> list_all wf_lineno (walk tree) \<Longrightarrow>
           list_all lines_ok (fst (parse_python_file ast_parse k f))"
    using assms(1) len python_nodes_lines_ok [of "walk tree" "splitlines content" "relative_path f" "Suc k"]
    by (simp add: parse_python_file_def Let_def split_def create_chunk_def lines_ok_def)
  show "list_all (\<lambda>m. m_start m \<le> m_end m) (finditer content) \<Longrightarrow>
           list_all lines_ok (fst (parse_javascript_file finditer k f))"
    using assms(1) len javascript_matches_lines_ok [of "finditer content" content "splitlines content"]
    by (simp add: parse_javascript_file_def Let_def split_def create_chunk_def lines_ok_def)
  show "list_all lines_ok (fst (parse_generic_file max_chunk_size k f))"
    using assms(1) generic_windows_lines_ok
    by (simp add: parse_generic_file_def Let_def)
qed

text \<open>
  C9, on an empty Python file (an empty \<open>__init__.py\<close>): \<open>ast.parse\<close> accepts it,
  \<open>splitlines\<close> gives no line, and the module chunk has \<open>start_line = 1\<close> and
  \<open>end_line = 0\<close>.
\<close>

theorem empty_python_file_lines:
  "map (\<lambda>c. (type c, start_line c, end_line c))
     (fst (parse_python_file (\<lambda>s. Inr (Module [])) 0
        \<lparr>read_result = Inr [], path = ''/repo/pkg/__init__.py'',
          relative_path = ''pkg/__init__.py'', stem = ''__init__'', suffix = ''.py''\<rparr>))
   = [(''module'', 1, 0)]"
  by (simp add: parse_python_file_def walk_def create_chunk_def splitlines_def Let_def)

subsection \<open>Sessions\<close>

lemma map_of_dict_update:
  "distinct (map fst updates) \<Longrightarrow>
     map_of (dict_update d updates) = map_of d ++ map_of updates"
proof (induction updates arbitrary: d)
  case Nil
  show ?case by (simp add: dict_update_def)
next
  case (Cons kv updates)
  obtain k v where kv: "kv = (k, v)" by (cases kv)
  have notin: "map_of updates k = None"
    using Cons.prems kv by (simp add: map_of_eq_None_iff)
  have "map_of (dict_update d (kv # updates)) = map_of (dict_update (AList.update k v d) updates)"
    by (simp add: dict_update_def kv)
  also have "\<dots> = map_of (AList.update k v d) ++ map_of updates"
    using Cons.IH [of "AList.update k v d"] Cons.prems by simp
  also have "\<dots> = map_of d ++ map_of (kv # updates)"
    using notin by (auto simp: kv update_conv' map_add_def fun_eq_iff split: option.splits)
  finally show ?case .
qed

text \<open>
  C7. When the session's key holds a JSON object (the session exists) and the
  configured lifetime is positive, \<open>update_session\<close> succeeds for every update
  dictionary: the stored object is the old one overridden by the updates, with
  \<open>last_activity\<close> set to the current time whatever the updates hold, and the key's
  time to live is the full \<open>session_ttl\<close>. When the key is unbound (never created,
  deleted or expired), it raises \<open>SessionNotFoundException\<close> and the database is
  unchanged.
\<close>

theorem update_session_merges_and_refreshes:
  "(redis_get r (''session:'' @ session_id) = Some raw \<and> raw \<noteq> []
      \<and> loads raw = Some (JObj session_data) \<and> 0 < session_ttl
      \<and> distinct (map fst updates) \<longrightarrow>
      (\<exists>stored.
         update_session loads dumps session_ttl now r session_id updates =
           (Inr (), r(''session:'' @ session_id \<mapsto> (dumps (JObj stored), session_ttl)))
       \<and> map_of stored =
           (map_of session_data ++ map_of updates)(''last_activity'' \<mapsto> JStr now)))
   \<and> (redis_get r (''session:'' @ session_id) = None \<longrightarrow>
        update_session loads dumps session_ttl now r session_id updates =
          (Inl (SessionNotFoundException session_id), r))"
proof (intro conjI impI)
  assume a: "redis_get r (''session:'' @ session_id) = Some raw \<and> raw \<noteq> []
      \<and> loads raw = Some (JObj session_data) \<and> 0 < session_ttl
      \<and> distinct (map fst updates)"
  let ?stored = "AList.update ''last_activity'' (JStr now) (dict_update session_data updates)"
  have "update_session loads dumps session_ttl now r session_id updates =
           (Inr (), r(''session:'' @ session_id \<mapsto> (dumps (JObj ?stored), session_ttl)))"
    using a by (simp add: update_session_def get_session_def redis_setex_def Let_def)
  moreover have "map_of ?stored =
           (map_of session_data ++ map_of updates)(''last_activity'' \<mapsto> JStr now)"
    using a by (simp add: update_conv' map_of_dict_update)
  ultimately show "\<exists>stored.
         update_session loads dumps session_ttl now r session_id updates =
           (Inr (), r(''session:'' @ session_id \<mapsto> (dumps (JObj stored), session_ttl)))
       \<and> map_of stored =
           (map_of session_data ++ map_of updates)(''last_activity'' \<mapsto> JStr now)"
    by blast
next
  assume "redis_get r (''session:'' @ session_id) = None"
  then show "update_session loads dumps session_ttl now r session_id updates =
          (Inl (SessionNotFoundException session_id), r)"
    by (simp add: update_session_def get_session_def)
qed

theorem update_session_merges_and_refreshes_witness:
  "(\<exists>stored.
      update_session
        (\<lambda>s. if s = ''RAW'' then Some (JObj [(''status'', JStr ''parsing''), (''last_activity'', JStr ''t0'')]) else None)
        (\<lambda>j. ''NEW'') 3600 ''t1'' [''session:s1'' \<mapsto> (''RAW'', 100)] ''s1'' [(''status'', JStr ''ready'')]
      = (Inr (), [''session:s1'' \<mapsto> (''RAW'', 100)](''session:s1'' \<mapsto> (''NEW'', 3600)))
    \<and> map_of stored =
        (map_of [(''status'', JStr ''parsing''), (''last_activity'', JStr ''t0'')]
           ++ map_of [(''status'', JStr ''ready'')])(''last_activity'' \<mapsto> JStr ''t1''))
   \<and> update_session
        (\<lambda>s. if s = ''RAW'' then Some (JObj [(''status'', JStr ''parsing''), (''last_activity'', JStr ''t0'')]) else None)
        (\<lambda>j. ''NEW'') 3600 ''t1'' Map.empty ''s1'' [(''status'', JStr ''ready'')]
      = (Inl (SessionNotFoundException ''s1''), Map.empty)"
  using update_session_merges_and_refreshes
    [where r = "[''session:s1'' \<mapsto> (''RAW'', 100)]" and session_id = "''s1''" and raw = "''RAW''"
       and loads = "\<lambda>s. if s = ''RAW'' then Some (JObj [(''status'', JStr ''parsing''), (''last_activity'', JStr ''t0'')]) else None"
       and session_data = "[(''status'', JStr ''parsing''), (''last_activity'', JStr ''t0'')]"
       and session_ttl = 3600 and updates = "[(''status'', JStr ''ready'')]"
       and dumps = "\<lambda>j. ''NEW''" and now = "''t1''"]
    update_session_merges_and_refreshes
    [where r = "Map.empty" and session_id = "''s1''"
       and loads = "\<lambda>s. if s = ''RAW'' then Some (JObj [(''status'', JStr ''parsing''), (''last_activity'', JStr ''t0'')]) else None"
       and session_ttl = 3600 and updates = "[(''status'', JStr ''ready'')]"
       and dumps = "\<lambda>j. ''NEW''" and now = "''t1''"]
  by (simp add: redis_get_def)

subsection \<open>Indexing and search\<close>

lemma slice_nat: "slice xs (int i) (int (i + k)) = take k (drop i xs)"
  by (cases "i \<le> length xs")
     (simp_all add: slice_def slice_index_def Let_def min_def nat_int_add del: of_nat_add)

lemma make_entries_take_drop:
  "make_entries (take k (drop i ids)) (take k (drop i docs)) (take k (drop i metas))
       (take k (drop i embs))
     = take k (drop i (make_entries ids docs metas embs))"
  by (simp add: make_entries_def take_zip drop_zip take_map drop_map)

lemma length_make_entries:
  "length docs = length ids \<Longrightarrow> length metas = length ids \<Longrightarrow> length embs = length ids \<Longrightarrow>
     length (make_entries ids docs metas embs) = length ids"
  by (simp add: make_entries_def)

lemma collection_add_keeps:
  "collection_add b db nm ids docs metas embs = Inr db' \<Longrightarrow> \<exists>col. db' nm = Some col"
  by (auto simp: collection_add_def split: option.splits if_splits)

lemma add_batches_keeps:
  "db nm = Some col \<Longrightarrow>
     \<exists>col'. snd (add_batches b nm ids docs metas embs bs db is) nm = Some col'"
proof (induction "is" arbitrary: db col)
  case Nil
  then show ?case by simp
next
  case (Cons i "is")
  show ?case
  proof (cases "collection_add b db nm (slice ids (int i) (int (i + bs)))
             (slice docs (int i) (int (i + bs))) (slice metas (int i) (int (i + bs)))
             (slice embs (int i) (int (i + bs)))")
    case (Inl e)
    then show ?thesis using Cons.prems by simp
  next
    case (Inr db')
    then obtain col' where "db' nm = Some col'"
      using collection_add_keeps by blast
    then show ?thesis
      using Cons.IH [of db' col'] Inr by simp
  qed
qed

lemma add_batches_all:
  assumes len: "length docs = length ids" "length metas = length ids" "length embs = length ids"
    and acc: "\<forall>col batch. accepts b col batch"
  shows "db nm = Some col \<Longrightarrow>
     add_batches b nm ids docs metas embs bs db (map (\<lambda>j. j * bs) [a..<a + n])
       = (Inr (), db(nm \<mapsto> col @ take (n * bs) (drop (a * bs) (make_entries ids docs metas embs))))"
proof (induction n arbitrary: a db col)
  case 0
  then show ?case by (simp add: fun_upd_idem)
next
  case (Suc n)
  let ?E = "make_entries ids docs metas embs"
  let ?batch = "take bs (drop (a * bs) ?E)"
  have add: "collection_add b db nm
             (slice ids (int (a * bs)) (int (a * bs + bs)))
             (slice docs (int (a * bs)) (int (a * bs + bs)))
             (slice metas (int (a * bs)) (int (a * bs + bs)))
             (slice embs (int (a * bs)) (int (a * bs + bs)))
        = Inr (db(nm \<mapsto> col @ ?batch))"
    unfolding slice_nat make_entries_take_drop
    using Suc.prems len acc
    by (simp add: collection_add_def make_entries_take_drop)
  have rest: "add_batches b nm ids docs metas embs bs (db(nm \<mapsto> col @ ?batch))
                (map (\<lambda>j. j * bs) [Suc a..<Suc a + n])
        = (Inr (), (db(nm \<mapsto> col @ ?batch))(nm \<mapsto> (col @ ?batch)
                      @ take (n * bs) (drop (Suc a * bs) ?E)))"
    by (rule Suc.IH) simp
  have joined: "?batch @ take (n * bs) (drop (Suc a * bs) ?E) = take (Suc n * bs) (drop (a * bs) ?E)"
  proof -
    have "take (Suc n * bs) (drop (a * bs) ?E)
            = take bs (drop (a * bs) ?E) @ take (n * bs) (drop bs (drop (a * bs) ?E))"
      by (simp add: take_add)
    then show ?thesis by (simp add: add.commute)
  qed
  have starts: "map (\<lambda>j. j * bs) [a..<a + Suc n] = a * bs # map (\<lambda>j. j * bs) [Suc a..<Suc a + n]"
    by (simp add: upt_conv_Cons del: upt_Suc)
  show ?case
    unfolding starts add_batches.simps add
    by (simp only: sum.case rest fun_upd_upd append_assoc joined)
qed

lemma create_collection_ok:
  "valid_name b (''session_'' @ session_id) \<Longrightarrow>
     create_collection b db session_id = (Inr (), db(''session_'' @ session_id \<mapsto> []))"
  by (auto simp: create_collection_def client_delete_collection_def client_create_collection_def
        Let_def split: option.splits)

lemma create_collection_creates:
  "create_collection b db session_id = (Inr u, db1) \<Longrightarrow> db1 (''session_'' @ session_id) = Some []"
  by (auto simp: create_collection_def client_delete_collection_def client_create_collection_def
        Let_def split: option.splits if_splits)

lemma insert_embeddings_keeps:
  "db (''session_'' @ session_id) = Some col \<Longrightarrow>
     \<exists>col'. snd (insert_embeddings b db session_id chunks embeddings) (''session_'' @ session_id) = Some col'"
  using add_batches_keeps [of db "''session_'' @ session_id" col b "map chunk_id chunks"
      "map code chunks" "map chunk_metadata chunks" embeddings 1000
      "range_step (length (map chunk_id chunks)) 1000"]
  by (auto simp: insert_embeddings_def client_get_collection_def Let_def split: prod.splits sum.splits)

lemma insert_embeddings_all:
  assumes "length embeddings = length chunks" and "\<forall>col batch. accepts b col batch"
    and "db (''session_'' @ session_id) = Some col"
  shows "insert_embeddings b db session_id chunks embeddings =
           (Inr (), db(''session_'' @ session_id \<mapsto>
              col @ make_entries (map chunk_id chunks) (map code chunks)
                      (map chunk_metadata chunks) embeddings))"
proof -
  let ?n = "(length chunks + 1000 - 1) div 1000"
  let ?E = "make_entries (map chunk_id chunks) (map code chunks) (map chunk_metadata chunks) embeddings"
  have "length chunks \<le> ?n * 1000" by simp
  then have full: "take (?n * 1000) ?E = ?E"
    using assms(1) by (simp add: length_make_entries)
  have "add_batches b (''session_'' @ session_id) (map chunk_id chunks) (map code chunks)
          (map chunk_metadata chunks) embeddings 1000 db (map (\<lambda>j. j * 1000) [0..<0 + ?n])
        = (Inr (), db(''session_'' @ session_id \<mapsto> col @ take (?n * 1000) (drop (0 * 1000) ?E)))"
    by (rule add_batches_all) (use assms in simp_all)
  then show ?thesis
    using assms(3) full
    by (simp add: insert_embeddings_def client_get_collection_def range_step_def Let_def)
qed

text \<open>
  C4, as the code has it. Embedding generation is the first step of
  \<open>index_codebase\<close>, before the collection is created: when the model fails, the
  ingest fails and the database holds no collection for the session, created or
  empty.
\<close>

theorem index_codebase_embedding_failure_counterexample:
  "index_codebase (\<lambda>texts. Inl (PyException ''RuntimeError'' ''out of memory''))
      \<lparr>valid_name = (\<lambda>nm. True), accepts = (\<lambda>col batch. True), dist = (\<lambda>x y. \<bar>x - y\<bar>)\<rparr>
      Map.empty ''s1''
      [\<lparr>chunk_id = ''chunk_000001'', type = ''function'', name = ''f'', code = ''def f(): pass'',
        file_path = ''a.py'', start_line = 1, end_line = 1, language = ''python'',
        docstring = [], chunk_imports = []\<rparr>]
   = (Inl (EmbeddingException ''Failed to generate embeddings: out of memory''), Map.empty)"
  by (simp add: index_codebase_def generate_embeddings_def)

text \<open>
  C4, amended. \<open>index_codebase\<close> embeds all chunks in one call, then creates the
  session's collection, then inserts the embeddings, and the first step that fails
  ends the ingest with its exception. A failed embedding step leaves the database
  untouched. When the collection has been created and the insertion fails, the
  collection is still there afterwards (nothing is rolled back). When the model
  returns one embedding per chunk and the backend accepts the name and every batch,
  the ingest succeeds, reports the number of chunks, and the session's collection
  holds exactly one entry per chunk, in order.
\<close>

theorem index_codebase_steps:
  "(generate_embeddings encode chunks = Inl e \<longrightarrow>
      index_codebase encode b db session_id chunks = (Inl e, db))
   \<and> (generate_embeddings encode chunks = Inr embeddings
        \<and> fst (create_collection b db session_id) = Inl e \<longrightarrow>
      fst (index_codebase encode b db session_id chunks) = Inl e)
   \<and> (generate_embeddings encode chunks = Inr embeddings
        \<and> create_collection b db session_id = (Inr (), db1)
        \<and> fst (insert_embeddings b db1 session_id chunks embeddings) = Inl e \<longrightarrow>
      fst (index_codebase encode b db session_id chunks) = Inl e
      \<and> (\<exists>col. snd (index_codebase encode b db session_id chunks) (''session_'' @ session_id)
                  = Some col))
   \<and> (generate_embeddings encode chunks = Inr embeddings
        \<and> length embeddings = length chunks
        \<and> valid_name b (''session_'' @ session_id)
        \<and> (\<forall>col batch. accepts b col batch) \<longrightarrow>
      index_codebase encode b db session_id chunks =
        (Inr \<lparr>ir_session_id = session_id, chunks_indexed = length chunks,
              embeddings_generated = length embeddings, ir_status = ''success''\<rparr>,
         db(''session_'' @ session_id \<mapsto>
              make_entries (map chunk_id chunks) (map code chunks)
                (map chunk_metadata chunks) embeddings)))"
proof (intro conjI impI)
  assume "generate_embeddings encode chunks = Inl e"
  then show "index_codebase encode b db session_id chunks = (Inl e, db)"
    by (simp add: index_codebase_def)
next
  assume "generate_embeddings encode chunks = Inr embeddings
        \<and> fst (create_collection b db session_id) = Inl e"
  then show "fst (index_codebase encode b db session_id chunks) = Inl e"
    by (cases "create_collection b db session_id") (simp add: index_codebase_def)
next
  assume a: "generate_embeddings encode chunks = Inr embeddings
        \<and> create_collection b db session_id = (Inr (), db1)
        \<and> fst (insert_embeddings b db1 session_id chunks embeddings) = Inl e"
  then have created: "db1 (''session_'' @ session_id) = Some []"
    using create_collection_creates by blast
  obtain r db2 where ins: "insert_embeddings b db1 session_id chunks embeddings = (r, db2)"
    by (cases "insert_embeddings b db1 session_id chunks embeddings")
  have r: "r = Inl e" using a ins by simp
  have kept: "\<exists>col. db2 (''session_'' @ session_id) = Some col"
    using insert_embeddings_keeps [of db1 session_id "[]" b chunks embeddings] created ins by simp
  have res: "index_codebase encode b db session_id chunks = (Inl e, db2)"
    using a ins r by (simp add: index_codebase_def)
  show "fst (index_codebase encode b db session_id chunks) = Inl e"
    using res by simp
  show "\<exists>col. snd (index_codebase encode b db session_id chunks) (''session_'' @ session_id)
                  = Some col"
    using res kept by simp
next
  assume a: "generate_embeddings encode chunks = Inr embeddings
        \<and> length embeddings = length chunks
        \<and> valid_name b (''session_'' @ session_id)
        \<and> (\<forall>col batch. accepts b col batch)"
  have c: "create_collection b db session_id = (Inr (), db(''session_'' @ session_id \<mapsto> []))"
    using a create_collection_ok by blast
  have i: "insert_embeddings b (db(''session_'' @ session_id \<mapsto> [])) session_id chunks embeddings =
           (Inr (), (db(''session_'' @ session_id \<mapsto> []))(''session_'' @ session_id \<mapsto>
              [] @ make_entries (map chunk_id chunks) (map code chunks)
                      (map chunk_metadata chunks) embeddings))"
    by (rule insert_embeddings_all) (use a in simp_all)
  show "index_codebase encode b db session_id chunks =
        (Inr \<lparr>ir_session_id = session_id, chunks_indexed = length chunks,
              embeddings_generated = length embeddings, ir_status = ''success''\<rparr>,
         db(''session_'' @ session_id \<mapsto>
              make_entries (map chunk_id chunks) (map code chunks)
                (map chunk_metadata chunks) embeddings))"
    using a c i by (simp add: index_codebase_def)
qed

theorem index_codebase_steps_witness:
  "index_codebase (\<lambda>texts. Inl (PyException ''RuntimeError'' ''out of memory'')) \<lparr>valid_name = (\<lambda>nm. True), accepts = (\<lambda>col batch. True), dist = (\<lambda>x y. \<bar>x - y\<bar>)\<rparr> Map.empty ''s1'' [\<lparr>chunk_id = ''chunk_000001'', type = ''function'', name = ''f'', code = ''def f(): pass'',
        file_path = ''a.py'', start_line = 1, end_line = 1, language = ''python'',
        docstring = [], chunk_imports = []\<rparr>]
     = (Inl (EmbeddingException ''Failed to generate embeddings: out of memory''), Map.empty)
   \<and> fst (index_codebase (\<lambda>texts. Inr (map (\<lambda>t. 1) texts)) \<lparr>valid_name = (\<lambda>nm. False), accepts = (\<lambda>col batch. True), dist = (\<lambda>x y. \<bar>x - y\<bar>)\<rparr> Map.empty ''s1'' [\<lparr>chunk_id = ''chunk_000001'', type = ''function'', name = ''f'', code = ''def f(): pass'',
        file_path = ''a.py'', start_line = 1, end_line = 1, language = ''python'',
        docstring = [], chunk_imports = []\<rparr>])
     = Inl (VectorDBException ''Failed to create collection: Invalid collection name session_s1'')
   \<and> (fst (index_codebase (\<lambda>texts. Inr (map (\<lambda>t. 1) texts)) \<lparr>valid_name = (\<lambda>nm. True), accepts = (\<lambda>col batch. False), dist = (\<lambda>x y. \<bar>x - y\<bar>)\<rparr> Map.empty ''s1'' [\<lparr>chunk_id = ''chunk_000001'', type = ''function'', name = ''f'', code = ''def f(): pass'',
        file_path = ''a.py'', start_line = 1, end_line = 1, language = ''python'',
        docstring = [], chunk_imports = []\<rparr>])
        = Inl (VectorDBException ''Failed to insert embeddings: add failed'')
      \<and> (\<exists>col. snd (index_codebase (\<lambda>texts. Inr (map (\<lambda>t. 1) texts)) \<lparr>valid_name = (\<lambda>nm. True), accepts = (\<lambda>col batch. False), dist = (\<lambda>x y. \<bar>x - y\<bar>)\<rparr> Map.empty ''s1'' [\<lparr>chunk_id = ''chunk_000001'', type = ''function'', name = ''f'', code = ''def f(): pass'',
        file_path = ''a.py'', start_line = 1, end_line = 1, language = ''python'',
        docstring = [], chunk_imports = []\<rparr>]) ''session_s1'' = Some col))
   \<and> index_codebase (\<lambda>texts. Inr (map (\<lambda>t. 1) texts)) \<lparr>valid_name = (\<lambda>nm. True), accepts = (\<lambda>col batch. True), dist = (\<lambda>x y. \<bar>x - y\<bar>)\<rparr> Map.empty ''s1'' [\<lparr>chunk_id = ''chunk_000001'', type = ''function'', name = ''f'', code = ''def f(): pass'',
        file_path = ''a.py'', start_line = 1, end_line = 1, language = ''python'',
        docstring = [], chunk_imports = []\<rparr>]
     = (Inr \<lparr>ir_session_id = ''s1'', chunks_indexed = 1, embeddings_generated = 1,
             ir_status = ''success''\<rparr>,
        [''session_s1'' \<mapsto>
           [\<lparr>entry_id = ''chunk_000001'', document = ''def f(): pass'',
             metadata = [(''file_path'', ''a.py''), (''type'', ''function''), (''name'', ''f''),
                         (''language'', ''python''), (''lines'', ''1-1''), (''docstring'', [])],
             embedding = 1\<rparr>]])"
proof (intro conjI)
  show "index_codebase (\<lambda>texts. Inl (PyException ''RuntimeError'' ''out of memory'')) \<lparr>valid_name = (\<lambda>nm. True), accepts = (\<lambda>col batch. True), dist = (\<lambda>x y. \<bar>x - y\<bar>)\<rparr> Map.empty ''s1'' [\<lparr>chunk_id = ''chunk_000001'', type = ''function'', name = ''f'', code = ''def f(): pass'',
        file_path = ''a.py'', start_line = 1, end_line = 1, language = ''python'',
        docstring = [], chunk_imports = []\<rparr>]
     = (Inl (EmbeddingException ''Failed to generate embeddings: out of memory''), Map.empty)"
    using index_codebase_steps
      [where encode = "(\<lambda>texts. Inl (PyException ''RuntimeError'' ''out of memory''))" and chunks = "[\<lparr>chunk_id = ''chunk_000001'', type = ''function'', name = ''f'', code = ''def f(): pass'',
        file_path = ''a.py'', start_line = 1, end_line = 1, language = ''python'',
        docstring = [], chunk_imports = []\<rparr>]" and b = "\<lparr>valid_name = (\<lambda>nm. True), accepts = (\<lambda>col batch. True), dist = (\<lambda>x y. \<bar>x - y\<bar>)\<rparr>" and db = Map.empty
         and session_id = "''s1''"
         and e = "EmbeddingException ''Failed to generate embeddings: out of memory''"]
    by (simp add: generate_embeddings_def)
next
  show "fst (index_codebase (\<lambda>texts. Inr (map (\<lambda>t. 1) texts)) \<lparr>valid_name = (\<lambda>nm. False), accepts = (\<lambda>col batch. True), dist = (\<lambda>x y. \<bar>x - y\<bar>)\<rparr> Map.empty ''s1'' [\<lparr>chunk_id = ''chunk_000001'', type = ''function'', name = ''f'', code = ''def f(): pass'',
        file_path = ''a.py'', start_line = 1, end_line = 1, language = ''python'',
        docstring = [], chunk_imports = []\<rparr>])
     = Inl (VectorDBException ''Failed to create collection: Invalid collection name session_s1'')"
    using index_codebase_steps
      [where encode = "(\<lambda>texts. Inr (map (\<lambda>t. 1) texts))" and chunks = "[\<lparr>chunk_id = ''chunk_000001'', type = ''function'', name = ''f'', code = ''def f(): pass'',
        file_path = ''a.py'', start_line = 1, end_line = 1, language = ''python'',
        docstring = [], chunk_imports = []\<rparr>]" and b = "\<lparr>valid_name = (\<lambda>nm. False), accepts = (\<lambda>col batch. True), dist = (\<lambda>x y. \<bar>x - y\<bar>)\<rparr>" and db = Map.empty
         and session_id = "''s1''" and embeddings = "[1]"
         and e = "VectorDBException ''Failed to create collection: Invalid collection name session_s1''"]
    by (simp add: generate_embeddings_def embedding_texts_def create_collection_def
          client_delete_collection_def client_create_collection_def)
next
  have inst: "fst (index_codebase (\<lambda>texts. Inr (map (\<lambda>t. 1) texts)) \<lparr>valid_name = (\<lambda>nm. True), accepts = (\<lambda>col batch. False), dist = (\<lambda>x y. \<bar>x - y\<bar>)\<rparr> Map.empty ''s1'' [\<lparr>chunk_id = ''chunk_000001'', type = ''function'', name = ''f'', code = ''def f(): pass'',
        file_path = ''a.py'', start_line = 1, end_line = 1, language = ''python'',
        docstring = [], chunk_imports = []\<rparr>])
        = Inl (VectorDBException ''Failed to insert embeddings: add failed'')
      \<and> (\<exists>col. snd (index_codebase (\<lambda>texts. Inr (map (\<lambda>t. 1) texts)) \<lparr>valid_name = (\<lambda>nm. True), accepts = (\<lambda>col batch. False), dist = (\<lambda>x y. \<bar>x - y\<bar>)\<rparr> Map.empty ''s1'' [\<lparr>chunk_id = ''chunk_000001'', type = ''function'', name = ''f'', code = ''def f(): pass'',
        file_path = ''a.py'', start_line = 1, end_line = 1, language = ''python'',
        docstring = [], chunk_imports = []\<rparr>]) (''session_'' @ ''s1'') = Some col)"
    using index_codebase_steps
      [where encode = "(\<lambda>texts. Inr (map (\<lambda>t. 1) texts))" and chunks = "[\<lparr>chunk_id = ''chunk_000001'', type = ''function'', name = ''f'', code = ''def f(): pass'',
        file_path = ''a.py'', start_line = 1, end_line = 1, language = ''python'',
        docstring = [], chunk_imports = []\<rparr>]" and b = "\<lparr>valid_name = (\<lambda>nm. True), accepts = (\<lambda>col batch. False), dist = (\<lambda>x y. \<bar>x - y\<bar>)\<rparr>" and db = Map.empty
         and session_id = "''s1''" and embeddings = "[1]" and ?db1.0 = "[''session_s1'' \<mapsto> []]"
         and e = "VectorDBException ''Failed to insert embeddings: add failed''"]
    by (simp add: generate_embeddings_def embedding_texts_def create_collection_def
          client_delete_collection_def client_create_collection_def insert_embeddings_def
          client_get_collection_def collection_add_def range_step_def Let_def slice_def
          slice_index_def)
  show "fst (index_codebase (\<lambda>texts. Inr (map (\<lambda>t. 1) texts)) \<lparr>valid_name = (\<lambda>nm. True), accepts = (\<lambda>col batch. False), dist = (\<lambda>x y. \<bar>x - y\<bar>)\<rparr> Map.empty ''s1'' [\<lparr>chunk_id = ''chunk_000001'', type = ''function'', name = ''f'', code = ''def f(): pass'',
        file_path = ''a.py'', start_line = 1, end_line = 1, language = ''python'',
        docstring = [], chunk_imports = []\<rparr>])
        = Inl (VectorDBException ''Failed to insert embeddings: add failed'')"
    using inst by simp
  show "\<exists>col. snd (index_codebase (\<lambda>texts. Inr (map (\<lambda>t. 1) texts)) \<lparr>valid_name = (\<lambda>nm. True), accepts = (\<lambda>col batch. False), dist = (\<lambda>x y. \<bar>x - y\<bar>)\<rparr> Map.empty ''s1'' [\<lparr>chunk_id = ''chunk_000001'', type = ''function'', name = ''f'', code = ''def f(): pass'',
        file_path = ''a.py'', start_line = 1, end_line = 1, language = ''python'',
        docstring = [], chunk_imports = []\<rparr>]) ''session_s1'' = Some col"
    using inst by simp
next
  show "index_codebase (\<lambda>texts. Inr (map (\<lambda>t. 1) texts)) \<lparr>valid_name = (\<lambda>nm. True), accepts = (\<lambda>col batch. True), dist = (\<lambda>x y. \<bar>x - y\<bar>)\<rparr> Map.empty ''s1'' [\<lparr>chunk_id = ''chunk_000001'', type = ''function'', name = ''f'', code = ''def f(): pass'',
        file_path = ''a.py'', start_line = 1, end_line = 1, language = ''python'',
        docstring = [], chunk_imports = []\<rparr>]
     = (Inr \<lparr>ir_session_id = ''s1'', chunks_indexed = 1, embeddings_generated = 1,
             ir_status = ''success''\<rparr>,
        [''session_s1'' \<mapsto>
           [\<lparr>entry_id = ''chunk_000001'', document = ''def f(): pass'',
             metadata = [(''file_path'', ''a.py''), (''type'', ''function''), (''name'', ''f''),
                         (''language'', ''python''), (''lines'', ''1-1''), (''docstring'', [])],
             embedding = 1\<rparr>]])"
    using index_codebase_steps
      [where encode = "(\<lambda>texts. Inr (map (\<lambda>t. 1) texts))" and chunks = "[\<lparr>chunk_id = ''chunk_000001'', type = ''function'', name = ''f'', code = ''def f(): pass'',
        file_path = ''a.py'', start_line = 1, end_line = 1, language = ''python'',
        docstring = [], chunk_imports = []\<rparr>]" and b = "\<lparr>valid_name = (\<lambda>nm. True), accepts = (\<lambda>col batch. True), dist = (\<lambda>x y. \<bar>x - y\<bar>)\<rparr>" and db = Map.empty
         and session_id = "''s1''" and embeddings = "[1]"]
    by (simp add: generate_embeddings_def embedding_texts_def make_entries_def chunk_metadata_def
          str_int_def dec.simps digit_char_def)
qed







subsection \<open>Answer generation\<close>

lemma call_model_body_not_retried:
  "call_model_body create n model user_prompt = Inl e \<Longrightarrow> \<not> retry_if_exception_type e"
  by (auto simp: call_model_body_def translate_error_def Let_def
        split: sum.splits list.splits option.splits if_splits)

lemma call_model_single_attempt:
  "call_model create n model user_prompt = (call_model_body create n model user_prompt, [])"
proof (cases "call_model_body create n model user_prompt")
  case (Inl e)
  then show ?thesis
    using call_model_body_not_retried [OF Inl]
    by (simp add: call_model_def numeral_3_eq_3)
next
  case (Inr r)
  then show ?thesis by (simp add: call_model_def numeral_3_eq_3)
qed

lemma try_models_first_success:
  "i < length ms \<Longrightarrow>
   (\<forall>j<i. isl (call_model_body create (n + j) (ms ! j) p)) \<Longrightarrow>
   call_model_body create (n + i) (ms ! i) p = Inr r \<Longrightarrow>
   fst (try_models create p n last_error ms) =
     Inr \<lparr>answer = result_content r, model_used = ms ! i,
           answer_tokens = result_tokens r, answer_cost = result_cost r\<rparr>"
proof (induction ms arbitrary: i n last_error)
  case Nil
  then show ?case by simp
next
  case (Cons m ms)
  show ?case
  proof (cases i)
    case 0
    then show ?thesis
      using Cons.prems by (simp add: call_model_single_attempt)
  next
    case (Suc i')
    have "isl (call_model_body create (n + 0) ((m # ms) ! 0) p)"
      using Cons.prems(2) Suc by blast
    then obtain e where e: "call_model_body create n m p = Inl e"
      by (cases "call_model_body create n m p") simp_all
    have prev: "\<forall>j<i'. isl (call_model_body create (Suc n + j) (ms ! j) p)"
    proof (intro allI impI)
      fix j assume "j < i'"
      then have "isl (call_model_body create (n + Suc j) ((m # ms) ! Suc j) p)"
        using Cons.prems(2) Suc by (metis Suc_less_eq)
      then show "isl (call_model_body create (Suc n + j) (ms ! j) p)" by simp
    qed
    have "fst (try_models create p (Suc n) (Some e) ms) =
            Inr \<lparr>answer = result_content r, model_used = ms ! i',
                  answer_tokens = result_tokens r, answer_cost = result_cost r\<rparr>"
      using Cons.IH [of i' "Suc n" "Some e"] Cons.prems Suc prev by simp
    then show ?thesis
      using e Suc by (simp add: call_model_single_attempt)
  qed
qed

lemma try_models_all_fail:
  "(\<forall>j<length ms. isl (call_model_body create (n + j) (ms ! j) p)) \<Longrightarrow>
   fst (try_models create p n last_error ms) =
     Inl (LLMException (''All models failed. Last error: '' @
       (if ms = [] then str_last_error last_error
        else str_exn (projl (call_model_body create (n + (length ms - 1)) (ms ! (length ms - 1)) p)))))"
proof (induction ms arbitrary: n last_error)
  case Nil
  then show ?case by simp
next
  case (Cons m ms)
  have "isl (call_model_body create (n + 0) ((m # ms) ! 0) p)"
    using Cons.prems by blast
  then obtain e where e: "call_model_body create n m p = Inl e"
    by (cases "call_model_body create n m p") simp_all
  have rest: "\<forall>j<length ms. isl (call_model_body create (Suc n + j) (ms ! j) p)"
  proof (intro allI impI)
    fix j assume "j < length ms"
    then have "isl (call_model_body create (n + Suc j) ((m # ms) ! Suc j) p)"
      using Cons.prems by (metis Suc_less_eq length_Cons)
    then show "isl (call_model_body create (Suc n + j) (ms ! j) p)" by simp
  qed
  have step: "fst (try_models create p n last_error (m # ms)) =
                fst (try_models create p (Suc n) (Some e) ms)"
    using e by (simp add: call_model_single_attempt)
  show ?case
  proof (cases "ms = []")
    case True
    then show ?thesis
      using e by (simp add: call_model_single_attempt str_last_error_def)
  next
    case False
    then have len: "0 < length ms" by simp
    have ih: "fst (try_models create p (Suc n) (Some e) ms) =
       Inl (LLMException (''All models failed. Last error: '' @
         str_exn (projl (call_model_body create (Suc n + (length ms - 1)) (ms ! (length ms - 1)) p))))"
      using Cons.IH [OF rest, of "Some e"] False by (simp only: if_False)
    have i1: "(m # ms) ! (length (m # ms) - 1) = ms ! (length ms - 1)"
      using len by (cases "length ms") simp_all
    have i2: "n + (length (m # ms) - 1) = Suc n + (length ms - 1)"
      using len by simp
    have ne: "(m # ms = []) = False" by simp
    show ?thesis
      unfolding step ih i1 i2 ne if_False ..
  qed
qed

text \<open>
  C1, on a client whose first call times out and whose later calls succeed. The
  handler inside \<open>_call_model\<close> catches the timeout and raises \<open>LLMException\<close>,
  which is the exception the decorator sees: the model is called once, nothing is
  slept, and the call fails. Applied to the client's call itself, the same decorator
  sleeps 2 seconds, calls again and returns the response.
\<close>

theorem call_model_timeout_not_retried:
  "call_model (\<lambda>n model user_prompt.
        if n = 0 then Inl (TimeoutException ''timed out'')
        else Inr \<lparr>choices = [Some ''ok''], usage = None, ratelimit_cost = None\<rparr>) 0 ''google/gemini-flash-1.5'' ''hello''
     = (Inl (LLMException ''LLM request failed: timed out''), [])
   \<and> retrying 3 (\<lambda>k. (\<lambda>n model user_prompt.
        if n = 0 then Inl (TimeoutException ''timed out'')
        else Inr \<lparr>choices = [Some ''ok''], usage = None, ratelimit_cost = None\<rparr>) k ''google/gemini-flash-1.5'' ''hello'') 0 1
     = (Inr \<lparr>choices = [Some ''ok''], usage = None, ratelimit_cost = None\<rparr>, [2])"
  by (simp add: call_model_def call_model_body_def translate_error_def numeral_3_eq_3
        lower_def lower_char_def wait_exponential_def)

text \<open>
  C2. The models tried are the given model alone when one is given (a non-empty
  string), otherwise the default model followed by the fallback list when fallback
  is enabled. They are called in this order, one call each: when the model at
  position \<open>i\<close> is the first whose call succeeds, the answer, \<open>model_used\<close>, the tokens
  and the cost (\<open>None\<close> without a cost header) are those of that call; when every
  call fails, \<open>LLMException\<close> is raised with the message of the last model's
  exception.
\<close>

theorem generate_explanation_model_order:
  assumes "build_context code_chunks = Inr context"
  shows
    "models_to_try cfg model =
       (case model of
          None \<Rightarrow> default_model cfg # (if enable_fallback cfg then fallback_models cfg else [])
        | Some m \<Rightarrow>
            if m \<noteq> [] then [m]
            else default_model cfg # (if enable_fallback cfg then fallback_models cfg else []))
     \<and> (\<forall>i r. i < length (models_to_try cfg model)
          \<and> (\<forall>j<i. isl (call_model_body create (n + j) (models_to_try cfg model ! j)
                           (user_prompt_of context question)))
          \<and> call_model_body create (n + i) (models_to_try cfg model ! i)
                (user_prompt_of context question) = Inr r
          \<longrightarrow> fst (generate_explanation cfg create n question code_chunks model) =
                Inr \<lparr>answer = result_content r, model_used = models_to_try cfg model ! i,
                      answer_tokens = result_tokens r, answer_cost = result_cost r\<rparr>)
     \<and> ((\<forall>j<length (models_to_try cfg model).
             isl (call_model_body create (n + j) (models_to_try cfg model ! j)
                    (user_prompt_of context question)))
          \<longrightarrow> fst (generate_explanation cfg create n question code_chunks model) =
                Inl (LLMException (''All models failed. Last error: '' @
                  str_exn (projl (call_model_body create
                     (n + (length (models_to_try cfg model) - 1))
                     (models_to_try cfg model ! (length (models_to_try cfg model) - 1))
                     (user_prompt_of context question))))))"
proof (intro conjI allI impI)
  show "models_to_try cfg model =
       (case model of
          None \<Rightarrow> default_model cfg # (if enable_fallback cfg then fallback_models cfg else [])
        | Some m \<Rightarrow>
            if m \<noteq> [] then [m]
            else default_model cfg # (if enable_fallback cfg then fallback_models cfg else []))"
    by (simp add: models_to_try_def truthy_def split: option.splits)
next
  fix i r
  assume a: "i < length (models_to_try cfg model)
          \<and> (\<forall>j<i. isl (call_model_body create (n + j) (models_to_try cfg model ! j)
                           (user_prompt_of context question)))
          \<and> call_model_body create (n + i) (models_to_try cfg model ! i)
                (user_prompt_of context question) = Inr r"
  have "fst (try_models create (user_prompt_of context question) n None (models_to_try cfg model)) =
                Inr \<lparr>answer = result_content r, model_used = models_to_try cfg model ! i,
                      answer_tokens = result_tokens r, answer_cost = result_cost r\<rparr>"
    using a by (intro try_models_first_success) blast+
  then show "fst (generate_explanation cfg create n question code_chunks model) =
                Inr \<lparr>answer = result_content r, model_used = models_to_try cfg model ! i,
                      answer_tokens = result_tokens r, answer_cost = result_cost r\<rparr>"
    using assms by (simp add: generate_explanation_def)
next
  assume a: "\<forall>j<length (models_to_try cfg model).
             isl (call_model_body create (n + j) (models_to_try cfg model ! j)
                    (user_prompt_of context question))"
  have ne: "models_to_try cfg model \<noteq> []"
    by (simp add: models_to_try_def)
  show "fst (generate_explanation cfg create n question code_chunks model) =
                Inl (LLMException (''All models failed. Last error: '' @
                  str_exn (projl (call_model_body create
                     (n + (length (models_to_try cfg model) - 1))
                     (models_to_try cfg model ! (length (models_to_try cfg model) - 1))
                     (user_prompt_of context question)))))"
    using try_models_all_fail [OF a, of None] ne assms
    by (simp add: generate_explanation_def)
qed

theorem generate_explanation_model_order_witness:
  "fst (generate_explanation \<lparr>default_model = ''m1'', fallback_models = [''m2''], enable_fallback = True\<rparr>
          (\<lambda>n model user_prompt.
          if model = ''m2'' then Inr \<lparr>choices = [Some ''ok''], usage = None, ratelimit_cost = None\<rparr>
          else Inl (PyException ''NotFoundError'' ''model_not_found''))
          0 ''q'' [] None)
     = Inr \<lparr>answer = Some ''ok'', model_used = ''m2'',
            answer_tokens = \<lparr>prompt = None, completion = None, total = None\<rparr>,
            answer_cost = None\<rparr>
   \<and> fst (generate_explanation \<lparr>default_model = ''m1'', fallback_models = [''m2''], enable_fallback = True\<rparr>
          (\<lambda>n model user_prompt. Inl (PyException ''NotFoundError'' ''model_not_found''))
          0 ''q'' [] None)
     = Inl (LLMException ''All models failed. Last error: Model not found: m2'')
   \<and> models_to_try \<lparr>default_model = ''m1'', fallback_models = [''m2''], enable_fallback = True\<rparr> (Some ''m9'') = [''m9'']"
proof (intro conjI)
  have b: "build_context [] = Inr []"
    by (simp add: build_context_def)
  have m: "models_to_try \<lparr>default_model = ''m1'', fallback_models = [''m2''], enable_fallback = True\<rparr> None = [''m1'', ''m2'']"
    by (simp add: models_to_try_def truthy_def)
  have fail: "\<And>create n model p. create n model p = Inl (PyException ''NotFoundError'' ''model_not_found'')
      \<Longrightarrow> call_model_body create n model p = Inl (LLMException (''Model not found: '' @ model))"
    by (simp add: call_model_body_def translate_error_def lower_def lower_char_def)
  show "fst (generate_explanation \<lparr>default_model = ''m1'', fallback_models = [''m2''], enable_fallback = True\<rparr>
          (\<lambda>n model user_prompt.
          if model = ''m2'' then Inr \<lparr>choices = [Some ''ok''], usage = None, ratelimit_cost = None\<rparr>
          else Inl (PyException ''NotFoundError'' ''model_not_found''))
          0 ''q'' [] None)
     = Inr \<lparr>answer = Some ''ok'', model_used = ''m2'',
            answer_tokens = \<lparr>prompt = None, completion = None, total = None\<rparr>,
            answer_cost = None\<rparr>"
    using generate_explanation_model_order
      [OF b, where cfg = "\<lparr>default_model = ''m1'', fallback_models = [''m2''], enable_fallback = True\<rparr>" and model = None and n = 0 and question = "''q''"
         and create = "(\<lambda>n model user_prompt.
          if model = ''m2'' then Inr \<lparr>choices = [Some ''ok''], usage = None, ratelimit_cost = None\<rparr>
          else Inl (PyException ''NotFoundError'' ''model_not_found''))",
       THEN conjunct2, THEN conjunct1, rule_format, of 1 "\<lparr>result_content = Some ''ok'', result_tokens = \<lparr>prompt = None, completion = None, total = None\<rparr>, result_cost = None\<rparr>"]
    by (simp add: m fail) (simp add: call_model_body_def)
  show "fst (generate_explanation \<lparr>default_model = ''m1'', fallback_models = [''m2''], enable_fallback = True\<rparr>
          (\<lambda>n model user_prompt. Inl (PyException ''NotFoundError'' ''model_not_found''))
          0 ''q'' [] None)
     = Inl (LLMException ''All models failed. Last error: Model not found: m2'')"
    using generate_explanation_model_order
      [OF b, where cfg = "\<lparr>default_model = ''m1'', fallback_models = [''m2''], enable_fallback = True\<rparr>" and model = None and n = 0 and question = "''q''"
         and create = "(\<lambda>n model user_prompt. Inl (PyException ''NotFoundError'' ''model_not_found''))",
       THEN conjunct2, THEN conjunct2]
    by (simp add: m fail less_Suc_eq)
  show "models_to_try \<lparr>default_model = ''m1'', fallback_models = [''m2''], enable_fallback = True\<rparr> (Some ''m9'') = [''m9'']"
    using generate_explanation_model_order
      [OF b, where cfg = "\<lparr>default_model = ''m1'', fallback_models = [''m2''], enable_fallback = True\<rparr>" and model = "Some ''m9''", THEN conjunct1]
    by simp
qed

subsection \<open>Normalisation and cosine similarity\<close>

text \<open>
  Zeros are closed under the multiplication, the addition and the square root, and
  a division of a zero by a zero is \<open>nan\<close>, whatever the rounding.
\<close>

lemma is_zero_zero_with [simp]: "is_zero (zero_with s)"
  by (simp add: zero_with_def)

lemma fl_mul_zero: "is_zero x \<Longrightarrow> is_zero y \<Longrightarrow> is_zero (fl_mul rnd x y)"
  by (cases x; cases y) (simp_all add: fl_mul_def)

lemma fl_add_zero: "is_zero x \<Longrightarrow> is_zero y \<Longrightarrow> is_zero (fl_add rnd x y)"
  by (cases x; cases y) (simp_all add: fl_add_def)

lemma fl_sqrt_zero: "is_zero x \<Longrightarrow> is_zero (fl_sqrt rnd x)"
  by (cases x) (simp_all add: fl_sqrt_def)

lemma fl_mul_zero_left: "is_zero x \<Longrightarrow> is_zero (fl_mul rnd x y) \<or> fl_mul rnd x y = NaN"
  by (cases x; cases y) (simp_all add: fl_mul_def inf_with_def)

lemma fl_mul_zero_right: "is_zero y \<Longrightarrow> is_zero (fl_mul rnd x y) \<or> fl_mul rnd x y = NaN"
  by (cases x; cases y) (simp_all add: fl_mul_def inf_with_def)

lemma fl_mul_nan_right: "fl_mul rnd x NaN = NaN"
  by (simp add: fl_mul_def)

lemma fl_mul_nan_left: "fl_mul rnd NaN y = NaN"
  by (simp add: fl_mul_def)

lemma fl_add_zero_or_nan:
  "is_zero x \<or> x = NaN \<Longrightarrow> is_zero y \<or> y = NaN \<Longrightarrow>
     is_zero (fl_add rnd x y) \<or> fl_add rnd x y = NaN"
  by (cases x; cases y) (simp_all add: fl_add_def)

lemma fl_div_zero_or_nan:
  "is_zero x \<or> x = NaN \<Longrightarrow> is_zero y \<or> y = NaN \<Longrightarrow> fl_div rnd x y = NaN"
  by (cases x; cases y) (simp_all add: fl_div_def)

lemma foldl_add_zero:
  "is_zero acc \<Longrightarrow> list_all is_zero xs \<Longrightarrow> is_zero (foldl (fl_add rnd) acc xs)"
  by (induction xs arbitrary: acc) (simp_all add: fl_add_zero)

lemma foldl_add_zero_or_nan:
  "is_zero acc \<or> acc = NaN \<Longrightarrow> list_all (\<lambda>x. is_zero x \<or> x = NaN) xs \<Longrightarrow>
     is_zero (foldl (fl_add rnd) acc xs) \<or> foldl (fl_add rnd) acc xs = NaN"
proof (induction xs arbitrary: acc)
  case Nil
  then show ?case by simp
next
  case (Cons x xs)
  have "is_zero (fl_add rnd acc x) \<or> fl_add rnd acc x = NaN"
    using Cons.prems by (intro fl_add_zero_or_nan) simp_all
  then show ?case
    using Cons.IH [of "fl_add rnd acc x"] Cons.prems by simp
qed

lemma dot_sum_zero: "is_zero_vector x \<Longrightarrow> is_zero (dot_sum rnd x x)"
proof -
  assume z: "is_zero_vector x"
  have "list_all is_zero (map (\<lambda>(a, b). fl_mul rnd a b) (zip x x))"
    using z by (induction x) (simp_all add: is_zero_vector_def fl_mul_zero)
  then show ?thesis
    unfolding dot_sum_def by (intro foldl_add_zero) simp_all
qed

lemma linalg_norm_zero: "is_zero_vector x \<Longrightarrow> is_zero (linalg_norm rnd x)"
  by (simp add: linalg_norm_def fl_sqrt_zero dot_sum_zero)

lemma products_zero_left:
  "is_zero_vector a \<Longrightarrow>
     list_all (\<lambda>x. is_zero x \<or> x = NaN) (map (\<lambda>(x, y). fl_mul rnd x y) (zip a b))"
proof (induction a arbitrary: b)
  case Nil
  show ?case by simp
next
  case (Cons x a)
  show ?case
  proof (cases b)
    case Nil
    then show ?thesis by simp
  next
    case (Cons y b')
    then show ?thesis
      using Cons.IH [of b'] Cons.prems fl_mul_zero_left [of x rnd y]
      by (simp add: is_zero_vector_def)
  qed
qed

lemma products_zero_right:
  "is_zero_vector b \<Longrightarrow>
     list_all (\<lambda>x. is_zero x \<or> x = NaN) (map (\<lambda>(x, y). fl_mul rnd x y) (zip a b))"
proof (induction b arbitrary: a)
  case Nil
  show ?case by simp
next
  case (Cons y b)
  show ?case
  proof (cases a)
    case Nil
    then show ?thesis by simp
  next
    case (Cons x a')
    then show ?thesis
      using Cons.IH [of a'] Cons.prems fl_mul_zero_right [of y rnd x]
      by (simp add: is_zero_vector_def)
  qed
qed

lemma dot_sum_zero_or_nan:
  "is_zero_vector a \<or> is_zero_vector b \<Longrightarrow>
     is_zero (dot_sum rnd a b) \<or> dot_sum rnd a b = NaN"
  unfolding dot_sum_def
  using products_zero_left [of a rnd b] products_zero_right [of b rnd a]
  by (intro foldl_add_zero_or_nan) auto

lemma norm_product_zero_or_nan:
  "is_zero_vector a \<or> is_zero_vector b \<Longrightarrow>
     is_zero (fl_mul rnd (linalg_norm rnd a) (linalg_norm rnd b))
     \<or> fl_mul rnd (linalg_norm rnd a) (linalg_norm rnd b) = NaN"
  using linalg_norm_zero [of a rnd] linalg_norm_zero [of b rnd]
    fl_mul_zero_left [of "linalg_norm rnd a" rnd "linalg_norm rnd b"]
    fl_mul_zero_right [of "linalg_norm rnd b" rnd "linalg_norm rnd a"]
  by blast

lemma normalize_zero_vector:
  "is_zero_vector emb \<Longrightarrow>
     map (\<lambda>x. fl_div rnd x (linalg_norm rnd emb)) emb = map (\<lambda>x. NaN) emb"
proof -
  assume z: "is_zero_vector emb"
  have n: "is_zero (linalg_norm rnd emb)" using z by (rule linalg_norm_zero)
  have "\<And>x. x \<in> set emb \<Longrightarrow> fl_div rnd x (linalg_norm rnd emb) = NaN"
    using z n by (intro fl_div_zero_or_nan) (simp_all add: is_zero_vector_def list_all_iff)
  then show ?thesis by simp
qed

lemma binary32_range_one: "binary32_range 1 = Finite 1"
  by (simp add: binary32_range_def round_range_def)

text \<open>
  A nonzero vector is not enough for a unit vector or a similarity in floating
  point: in binary32 the squares of \<open>1e20\<close> overflow, the norm is \<open>inf\<close> and the
  vector is normalised to zeros; the square of \<open>1e-30\<close> underflows, the norm is \<open>0.0\<close>
  and the similarity of the vector with itself is \<open>nan\<close>.
\<close>

lemma nonzero_vectors_overflow_and_underflow:
  "normalize_embeddings binary32_range [[Finite (10 ^ 20), Finite (10 ^ 20)]]
     = [[Finite 0, Finite 0]]
   \<and> cosine_similarity binary32_range
       [Finite (1 / 10 ^ 30), Finite 0] [Finite (1 / 10 ^ 30), Finite 0] = Inr NaN"
proof
  have p: "fl_mul binary32_range (Finite (10 ^ 20)) (Finite (10 ^ 20)) = PInf"
    by (simp add: fl_mul_def binary32_range_def round_range_def inf_with_def)
  have a: "fl_add binary32_range (fl_add binary32_range (Finite 0) PInf) PInf = PInf"
    by (simp add: fl_add_def)
  have n: "linalg_norm binary32_range [Finite (10 ^ 20), Finite (10 ^ 20)] = PInf"
    unfolding linalg_norm_def dot_sum_def
    by (simp only: zip.simps list.map prod.case foldl.simps p a list.case)
       (simp add: fl_sqrt_def)
  have d: "fl_div binary32_range (Finite (10 ^ 20)) PInf = Finite 0"
    by (simp add: fl_div_def zero_with_def)
  show "normalize_embeddings binary32_range [[Finite (10 ^ 20), Finite (10 ^ 20)]]
     = [[Finite 0, Finite 0]]"
    unfolding normalize_embeddings_def
    by (simp only: list.map n d)
next
  have p: "fl_mul binary32_range (Finite (1 / 10 ^ 30)) (Finite (1 / 10 ^ 30)) = Finite 0"
    by (simp add: fl_mul_def binary32_range_def round_range_def zero_with_def)
  have z: "fl_mul binary32_range (Finite 0) (Finite 0) = Finite 0"
    by (simp add: fl_mul_def zero_with_def)
  have a: "fl_add binary32_range (fl_add binary32_range (Finite 0) (Finite 0)) (Finite 0) = Finite 0"
    by (simp add: fl_add_def zero_with_def)
  have s: "dot_sum binary32_range [Finite (1 / 10 ^ 30), Finite 0] [Finite (1 / 10 ^ 30), Finite 0]
             = Finite 0"
    unfolding dot_sum_def
    by (simp only: zip.simps list.map prod.case foldl.simps p z a list.case)
  have n: "linalg_norm binary32_range [Finite (1 / 10 ^ 30), Finite 0] = Finite 0"
    unfolding linalg_norm_def s by (simp add: fl_sqrt_def)
  have d: "fl_div binary32_range (Finite 0) (fl_mul binary32_range (Finite 0) (Finite 0)) = NaN"
    unfolding z by (simp add: fl_div_def)
  show "cosine_similarity binary32_range
       [Finite (1 / 10 ^ 30), Finite 0] [Finite (1 / 10 ^ 30), Finite 0] = Inr NaN"
    unfolding cosine_similarity_def np_dot_def s n by (simp add: d)
qed

text \<open>
  C10. \<open>normalize_embeddings\<close> and \<open>cosine_similarity\<close> divide by the Euclidean norm
  of their input without a guard, and the division by zero is reached for a zero
  vector. In IEEE 754 arithmetic, for every rounding: the norm of a zero vector is
  a zero; \<open>normalize_embeddings\<close> divides every vector by its norm, which turns each
  component of a zero vector into \<open>nan\<close> (\<open>0/0\<close>); so an output whose components
  are all finite is obtained only when every nonempty input vector is nonzero; and
  \<open>cosine_similarity\<close> of two vectors of the same length, one of them zero, is
  \<open>nan\<close> and no similarity value.
\<close>

theorem zero_vector_division_by_zero:
  "(is_zero_vector emb \<longrightarrow> is_zero (linalg_norm rnd emb))
   \<and> normalize_embeddings rnd embeddings =
       map (\<lambda>emb. if is_zero_vector emb then map (\<lambda>x. NaN) emb
                  else map (\<lambda>x. fl_div rnd x (linalg_norm rnd emb)) emb) embeddings
   \<and> (list_all (list_all is_finite) (normalize_embeddings rnd embeddings) \<longrightarrow>
        list_all (\<lambda>emb. emb = [] \<or> \<not> is_zero_vector emb) embeddings)
   \<and> (length emb1 = length emb2 \<and> (is_zero_vector emb1 \<or> is_zero_vector emb2) \<longrightarrow>
        cosine_similarity rnd emb1 emb2 = Inr NaN)"
proof (intro conjI impI)
  assume "is_zero_vector emb"
  then show "is_zero (linalg_norm rnd emb)" by (rule linalg_norm_zero)
next
  show exact: "normalize_embeddings rnd embeddings =
       map (\<lambda>emb. if is_zero_vector emb then map (\<lambda>x. NaN) emb
                  else map (\<lambda>x. fl_div rnd x (linalg_norm rnd emb)) emb) embeddings"
    unfolding normalize_embeddings_def
    by (rule map_cong) (simp_all add: normalize_zero_vector)
  assume fin: "list_all (list_all is_finite) (normalize_embeddings rnd embeddings)"
  show "list_all (\<lambda>emb. emb = [] \<or> \<not> is_zero_vector emb) embeddings"
    unfolding list_all_iff
  proof
    fix emb assume m: "emb \<in> set embeddings"
    show "emb = [] \<or> \<not> is_zero_vector emb"
    proof (rule ccontr)
      assume "\<not> (emb = [] \<or> \<not> is_zero_vector emb)"
      then have ne: "emb \<noteq> []" and z: "is_zero_vector emb" by simp_all
      have "map (\<lambda>x. NaN) emb \<in> set (normalize_embeddings rnd embeddings)"
        using m z unfolding exact by force
      then have "list_all is_finite (map (\<lambda>x. NaN) emb)"
        using fin by (simp add: list_all_iff)
      then show False using ne by (cases emb) simp_all
    qed
  qed
next
  assume a: "length emb1 = length emb2 \<and> (is_zero_vector emb1 \<or> is_zero_vector emb2)"
  then have "fl_div rnd (dot_sum rnd emb1 emb2)
               (fl_mul rnd (linalg_norm rnd emb1) (linalg_norm rnd emb2)) = NaN"
    by (intro fl_div_zero_or_nan dot_sum_zero_or_nan norm_product_zero_or_nan) simp_all
  then show "cosine_similarity rnd emb1 emb2 = Inr NaN"
    using a by (simp add: cosine_similarity_def np_dot_def)
qed

theorem zero_vector_division_by_zero_witness:
  "is_zero (linalg_norm binary32_range [Finite 0, NegZero])
   \<and> normalize_embeddings binary32_range [[Finite 0, NegZero], [Finite 1, Finite 0]]
      = [[NaN, NaN], [Finite 1, Finite 0]]
   \<and> list_all (\<lambda>emb. emb = [] \<or> \<not> is_zero_vector emb) [[Finite 1, Finite 0]]
   \<and> cosine_similarity binary32_range [Finite 0, Finite 0] [Finite 1, Finite 2] = Inr NaN"
proof (intro conjI)
  have n1: "linalg_norm binary32_range [Finite 1, Finite 0] = Finite 1"
    by (simp add: linalg_norm_def dot_sum_def fl_mul_def fl_add_def fl_sqrt_def
          binary32_range_one zero_with_def)
  have d1: "fl_div binary32_range (Finite 1) (Finite 1) = Finite 1"
    "fl_div binary32_range (Finite 0) (Finite 1) = Finite 0"
    by (simp_all add: fl_div_def binary32_range_one zero_with_def)
  note t = zero_vector_division_by_zero
    [where rnd = binary32_range and emb = "[Finite 0, NegZero]"
       and ?emb1.0 = "[Finite 0, Finite 0]" and ?emb2.0 = "[Finite 1, Finite 2]"]
  show "is_zero (linalg_norm binary32_range [Finite 0, NegZero])"
    using t [where embeddings = "[]"] by (simp add: is_zero_vector_def)
  show "normalize_embeddings binary32_range [[Finite 0, NegZero], [Finite 1, Finite 0]]
      = [[NaN, NaN], [Finite 1, Finite 0]]"
    using t [where embeddings = "[[Finite 0, NegZero], [Finite 1, Finite 0]]"]
    by (simp add: is_zero_vector_def n1 d1)
  show "list_all (\<lambda>emb. emb = [] \<or> \<not> is_zero_vector emb) [[Finite 1, Finite 0]]"
    using t [where embeddings = "[[Finite 1, Finite 0]]"]
    by (simp add: is_zero_vector_def n1 d1)
  show "cosine_similarity binary32_range [Finite 0, Finite 0] [Finite 1, Finite 2] = Inr NaN"
    using t [where embeddings = "[]"] by (simp add: is_zero_vector_def)
qed

end
